theory Spec2Isabelle
  imports Complex_Main
begin

section \<open>The advanced audio processor of \<^verbatim>\<open>audio_processor.py\<close>\<close>

text \<open>
  The class \<^verbatim>\<open>AdvancedAudioProcessor\<close> is embedded as a record of its attributes and
  one HOL function per method. Samples, energies and thresholds are Python/numpy floats;
  the pipeline is modelled over the real numbers, and the two methods whose stated
  properties depend on rounding are modelled a second time with binary64 rounding.
  Overflow and NaN are outside the model.
  The counter of the debouncer is a Python integer and is modelled as \<open>int\<close>.
  The attributes \<^verbatim>\<open>stream\<close> and \<^verbatim>\<open>freq_band_mask\<close> play no part in classification and
  are left out; \<^verbatim>\<open>print\<close> calls are dropped.
\<close>

subsection \<open>Library operations used by the class\<close>

datatype py_error = ValueError | IndexError | ZeroDivisionError

text \<open>
  \<^verbatim>\<open>collections.deque(maxlen=n).append(x)\<close>: the element is appended on the right and,
  when the deque has grown beyond \<open>n\<close>, one element is dropped on the left.
\<close>

definition deque_append :: "nat \<Rightarrow> 'a list \<Rightarrow> 'a \<Rightarrow> 'a list" where
  "deque_append maxlen d x =
     (let d' = d @ [x] in if maxlen < length d' then tl d' else d')"

text \<open>\<^verbatim>\<open>np.sum(a ** 2)\<close> and \<^verbatim>\<open>np.mean(a)\<close> on a one-dimensional array.\<close>

definition sum_squares :: "real list \<Rightarrow> real" where
  "sum_squares a = sum_list (map (\<lambda>x. x\<^sup>2) a)"

definition mean :: "real list \<Rightarrow> real" where
  "mean a = sum_list a / real (length a)"

text \<open>
  \<^verbatim>\<open>np.percentile(a, q)\<close> with numpy's default linear interpolation: in the sorted data
  the virtual index is \<open>(n - 1) * q / 100\<close>, and the result interpolates between the
  entries on both sides of it. An empty array has no percentile (\<open>None\<close>).
\<close>

definition percentile :: "real list \<Rightarrow> real \<Rightarrow> real option" where
  "percentile a q =
     (if a = [] then None
      else let srt = sort a;
               n = length a;
               virtual_index = real (n - 1) * (q / 100);
               previous_index = nat \<lfloor>virtual_index\<rfloor>;
               next_index = min (previous_index + 1) (n - 1);
               gamma = virtual_index - real previous_index
           in Some (srt ! previous_index
                    + (srt ! next_index - srt ! previous_index) * gamma))"

text \<open>
  \<^verbatim>\<open>np.fft.rfftfreq(n, d)\<close>: the centre frequencies \<open>k / (n * d)\<close> of the bins
  \<open>k = 0, ..., n // 2\<close>. The division \<^verbatim>\<open>1.0 / (n * d)\<close> raises on zero.
\<close>

definition rfftfreq :: "nat \<Rightarrow> real \<Rightarrow> py_error + real list" where
  "rfftfreq n d =
     (if real n * d = 0 then Inl ZeroDivisionError
      else Inr (map (\<lambda>k. real k * (1 / (real n * d))) [0..<n div 2 + 1]))"

text \<open>
  \<^verbatim>\<open>np.fft.rfft(x)\<close>: the discrete Fourier transform of a real frame of \<open>N\<close> samples,
  bins \<open>0, ..., N // 2\<close>. numpy refuses an empty frame with a \<^verbatim>\<open>ValueError\<close>.
\<close>

definition rfft :: "real list \<Rightarrow> py_error + complex list" where
  "rfft x =
     (let N = length x in
      if N = 0 then Inl ValueError
      else Inr (map (\<lambda>k. \<Sum>n<N. complex_of_real (x ! n)
                                 * cis (- 2 * pi * real k * real n / real N))
                    [0..<N div 2 + 1]))"

text \<open>
  \<^verbatim>\<open>a[indices]\<close> with an integer index array: every index must be in range.
\<close>

fun in_range :: "nat \<Rightarrow> nat list \<Rightarrow> bool" where
  "in_range n [] = True"
| "in_range n (i # idx) = (i < n \<and> in_range n idx)"

definition fancy_index :: "'a list \<Rightarrow> nat list \<Rightarrow> py_error + 'a list" where
  "fancy_index a idx =
     (if in_range (length a) idx then Inr (map (\<lambda>i. a ! i) idx) else Inl IndexError)"

text \<open>
  \<^verbatim>\<open>a * b\<close> on one-dimensional arrays: elementwise on equal lengths, an array of
  length one is broadcast, any other pair of shapes is a \<^verbatim>\<open>ValueError\<close>.
\<close>

definition np_multiply :: "real list \<Rightarrow> real list \<Rightarrow> py_error + real list" where
  "np_multiply a b =
     (if length a = length b then Inr (map2 (*) a b)
      else if length a = 1 then Inr (map (\<lambda>y. hd a * y) b)
      else if length b = 1 then Inr (map (\<lambda>x. x * hd b) a)
      else Inl ValueError)"

subsection \<open>The processor state\<close>

record processor =
  samplerate :: real
  blocksize :: nat
  sensitivity :: real
  audio_buffer :: "real list list"
  freq_min :: real
  freq_max :: real
  freq_threshold :: real
  centroid_history :: "real list"
  centroid_threshold :: real
  onset_history :: "real list"
  onset_threshold :: real
  noise_floor :: real
  noise_floor_history :: "real list"
  is_loud_smoothed :: bool
  loud_counter :: int
  loud_threshold :: int
  loud :: bool
  freq_band_indices :: "nat list"

text \<open>
  The frequency axis \<^verbatim>\<open>np.fft.rfftfreq(self.blocksize, 1.0 / self.samplerate)\<close>, computed
  in \<^verbatim>\<open>_setup_frequency_bands\<close> and again in \<^verbatim>\<open>_calculate_spectral_centroid\<close>.
\<close>

definition freq_axis :: "nat \<Rightarrow> real \<Rightarrow> py_error + real list" where
  "freq_axis bs sr =
     (if sr = 0 then Inl ZeroDivisionError else rfftfreq bs (1 / sr))"

text \<open>
  \<^verbatim>\<open>_setup_frequency_bands\<close>: the indices of the bins whose frequency lies in
  \<open>[freq_min, freq_max]\<close>.
\<close>

definition setup_frequency_bands :: "processor \<Rightarrow> py_error + processor" where
  "setup_frequency_bands s =
     (case freq_axis (blocksize s) (samplerate s) of
        Inl e \<Rightarrow> Inl e
      | Inr freqs \<Rightarrow>
          Inr (s\<lparr>freq_band_indices :=
                   filter (\<lambda>k. freq_min s \<le> freqs ! k \<and> freqs ! k \<le> freq_max s)
                          [0..<length freqs]\<rparr>))"

text \<open>\<^verbatim>\<open>__init__\<close>, with the deques empty. The capacities of the deques are fixed here.\<close>

definition audio_buffer_maxlen :: nat where "audio_buffer_maxlen = 4"
definition centroid_history_maxlen :: nat where "centroid_history_maxlen = 10"
definition onset_history_maxlen :: nat where "onset_history_maxlen = 8"
definition noise_floor_history_maxlen :: nat where "noise_floor_history_maxlen = 100"

definition init :: "real \<Rightarrow> nat \<Rightarrow> real \<Rightarrow> py_error + processor" where
  "init sr bs sens =
     setup_frequency_bands
       \<lparr>samplerate = sr, blocksize = bs, sensitivity = sens,
        audio_buffer = [],
        freq_min = 500, freq_max = 4000, freq_threshold = 0.015,
        centroid_history = [], centroid_threshold = 0.4,
        onset_history = [], onset_threshold = 1.5,
        noise_floor = 0.002, noise_floor_history = [],
        is_loud_smoothed = False, loud_counter = 0, loud_threshold = 2,
        loud = False, freq_band_indices = []\<rparr>"

subsection \<open>Feature extraction\<close>

text \<open>\<^verbatim>\<open>_calculate_spectral_centroid\<close>.\<close>

definition calculate_spectral_centroid :: "processor \<Rightarrow> real list \<Rightarrow> py_error + real" where
  "calculate_spectral_centroid s magnitude =
     (case freq_axis (blocksize s) (samplerate s) of
        Inl e \<Rightarrow> Inl e
      | Inr freqs \<Rightarrow>
          if sum_list magnitude = 0 then Inr 0
          else (case np_multiply freqs magnitude of
                  Inl e \<Rightarrow> Inl e
                | Inr weighted \<Rightarrow> Inr (sum_list weighted / sum_list magnitude)))"

text \<open>
  \<^verbatim>\<open>_calculate_onset_strength\<close>. The previous frame is the last but one of the buffer.
\<close>

definition calculate_onset_strength :: "processor \<Rightarrow> real list \<Rightarrow> real" where
  "calculate_onset_strength s frame =
     (if length (audio_buffer s) < 2 then 0
      else let current_energy = sum_squares frame in
           if length (audio_buffer s) > 1 then
             let prev_frame = audio_buffer s ! (length (audio_buffer s) - 2);
                 prev_energy = sum_squares prev_frame
             in if prev_energy = 0 then 0
                else current_energy / (prev_energy + 1 / 10 ^ 10)
           else 0)"

subsection \<open>Decision and debouncing\<close>

text \<open>
  \<^verbatim>\<open>_make_decision\<close>. \<^verbatim>\<open>sum\<close> over the list of the four Booleans counts the true ones.
\<close>

definition make_decision :: "processor \<Rightarrow> real \<Rightarrow> real \<Rightarrow> real \<Rightarrow> real \<Rightarrow> real \<Rightarrow> bool" where
  "make_decision s rms nf band_ratio centroid onset_strength =
     (let rms_check = rms > nf * 1.5;
          freq_check = band_ratio > 0.35;
          centroid_check = (centroid > 800 \<and> centroid < 5000);
          onset_check = onset_strength > onset_threshold s;
          checks_passed =
            sum_list (map of_bool [rms_check, freq_check, centroid_check, onset_check]) :: int
      in if onset_check \<and> freq_check then True
         else if checks_passed \<ge> 3 then True
         else False)"

text \<open>
  Step 6 of \<^verbatim>\<open>_process_audio\<close> (the debounce and the published flag), as a function of
  the state and the raw decision \<^verbatim>\<open>is_loud\<close>.
\<close>

definition debounce :: "processor \<Rightarrow> bool \<Rightarrow> processor" where
  "debounce s is_loud =
     (let s' = (if is_loud then s\<lparr>loud_counter := loud_counter s + 1\<rparr>
                else s\<lparr>loud_counter := max 0 (loud_counter s - 1)\<rparr>)
      in s'\<lparr>loud := (loud_counter s' \<ge> loud_threshold s')\<rparr>)"

text \<open>
  Step 1 of \<^verbatim>\<open>_process_audio\<close>: the RMS of the frame is appended to the noise-floor
  history and the adaptive noise floor is the 10th percentile of that history.
\<close>

definition frame_rms :: "real list \<Rightarrow> real" where
  "frame_rms frame = sqrt (mean (map (\<lambda>x. x\<^sup>2) frame))"

definition observe_noise_floor :: "processor \<Rightarrow> real \<Rightarrow> processor \<times> real option" where
  "observe_noise_floor s rms =
     (let s' = s\<lparr>noise_floor_history :=
                   deque_append noise_floor_history_maxlen (noise_floor_history s) rms\<rparr>
      in (s', percentile (noise_floor_history s') 10))"

text \<open>
  \<^verbatim>\<open>_process_audio\<close>. Both early returns reset the counter and the flag. An empty frame
  reaches \<^verbatim>\<open>np.fft.rfft\<close>, which raises (its RMS is NaN, which is below nothing).
\<close>

definition process_audio :: "processor \<Rightarrow> py_error + processor" where
  "process_audio s =
     (if length (audio_buffer s) = 0 then Inr s
      else
        let current_frame = last (audio_buffer s) in
        if current_frame = [] then Inl ValueError
        else
          let rms = frame_rms current_frame in
          (case observe_noise_floor s rms of
             (s1, None) \<Rightarrow> Inl IndexError
           | (s1, Some nf) \<Rightarrow>
               if rms < nf * 1.5 then Inr (s1\<lparr>loud_counter := 0, loud := False\<rparr>)
               else
                 (case rfft current_frame of
                    Inl e \<Rightarrow> Inl e
                  | Inr fft \<Rightarrow>
                      let magnitude = map cmod fft in
                      (case fancy_index magnitude (freq_band_indices s1) of
                         Inl e \<Rightarrow> Inl e
                       | Inr band \<Rightarrow>
                           let target_band_energy = sum_squares band;
                               total_energy = sum_squares magnitude
                           in if total_energy = 0
                              then Inr (s1\<lparr>loud_counter := 0, loud := False\<rparr>)
                              else
                                let band_ratio = target_band_energy / total_energy in
                                (case calculate_spectral_centroid s1 magnitude of
                                   Inl e \<Rightarrow> Inl e
                                 | Inr centroid \<Rightarrow>
                                     let s2 = s1\<lparr>centroid_history :=
                                                   deque_append centroid_history_maxlen
                                                     (centroid_history s1) centroid\<rparr>;
                                         onset_strength =
                                           calculate_onset_strength s2 current_frame;
                                         s3 = s2\<lparr>onset_history :=
                                                   deque_append onset_history_maxlen
                                                     (onset_history s2) onset_strength\<rparr>;
                                         is_loud = make_decision s3 rms nf band_ratio
                                                     centroid onset_strength
                                     in Inr (debounce s3 is_loud))))))"

text \<open>
  \<^verbatim>\<open>_audio_callback\<close>: the mono frame is appended to the buffer of the last four
  frames and processed.
\<close>

definition audio_callback :: "processor \<Rightarrow> real list \<Rightarrow> py_error + processor" where
  "audio_callback s frame =
     process_audio
       (s\<lparr>audio_buffer := deque_append audio_buffer_maxlen (audio_buffer s) frame\<rparr>)"

text \<open>\<^verbatim>\<open>is_loud\<close> and \<^verbatim>\<open>set_sensitivity\<close>.\<close>

definition is_loud :: "processor \<Rightarrow> bool" where
  "is_loud s = loud s"

definition set_sensitivity :: "processor \<Rightarrow> real \<Rightarrow> processor" where
  "set_sensitivity s x =
     (let s1 = s\<lparr>sensitivity := max 0 (min 1 x)\<rparr>;
          s2 = s1\<lparr>freq_threshold := 0.020 - sensitivity s1 * 0.008\<rparr>
      in s2\<lparr>onset_threshold := 2.0 - sensitivity s2 * 0.5\<rparr>)"

text \<open>
  A stream of frames delivered to the callback one after the other; an exception of a
  callback ends the run.
\<close>

fun run_frames :: "processor \<Rightarrow> real list list \<Rightarrow> py_error + processor" where
  "run_frames s [] = Inr s"
| "run_frames s (f # fs) =
     (case audio_callback s f of Inl e \<Rightarrow> Inl e | Inr s' \<Rightarrow> run_frames s' fs)"

subsection \<open>Floating-point rounding\<close>

text \<open>
  The pipeline above computes over the reals. Two methods are given a second time with
  the rounding of every floating-point operation as an argument \<open>rnd\<close>, for the properties
  that depend on it; with the identity for \<open>rnd\<close> they are the definitions above.

  \<open>b64\<close> rounds a real to the nearest binary64 number, ties to the even significand:
  53 significant bits, least exponent -1074 (gradual underflow). Numbers beyond the
  largest finite binary64 number, infinities and NaN are outside the model.
\<close>

definition round_half_even :: "real \<Rightarrow> int" where
  "round_half_even y =
     (let f = \<lfloor>y\<rfloor>; d = y - of_int f
      in if d < 1 / 2 then f
         else if 1 / 2 < d then f + 1
         else if even f then f else f + 1)"

definition b64_abs :: "real \<Rightarrow> real" where
  "b64_abs x =
     (if x = 0 then 0
      else let e = max (\<lfloor>log 2 x\<rfloor> - 52) (- 1074)
           in of_int (round_half_even (x / 2 powi e)) * 2 powi e)"

definition b64 :: "real \<Rightarrow> real" where
  "b64 x = (if x < 0 then - b64_abs (- x) else b64_abs x)"

text \<open>
  \<^verbatim>\<open>set_sensitivity\<close>, lines 265 to 269, on Python floats. The literals \<^verbatim>\<open>0.020\<close> and
  \<^verbatim>\<open>0.008\<close> are rounded when read; \<^verbatim>\<open>0.0\<close>, \<^verbatim>\<open>1.0\<close>, \<^verbatim>\<open>2.0\<close> and \<^verbatim>\<open>0.5\<close> are exact,
  and \<^verbatim>\<open>max\<close> and \<^verbatim>\<open>min\<close> do not round.
\<close>

definition set_sensitivity_fp :: "(real \<Rightarrow> real) \<Rightarrow> processor \<Rightarrow> real \<Rightarrow> processor" where
  "set_sensitivity_fp rnd s x =
     (let s1 = s\<lparr>sensitivity := max 0 (min 1 x)\<rparr>;
          s2 = s1\<lparr>freq_threshold := rnd (rnd 0.020 - rnd (sensitivity s1 * rnd 0.008))\<rparr>
      in s2\<lparr>onset_threshold := rnd (2.0 - rnd (sensitivity s2 * 0.5))\<rparr>)"

text \<open>
  \<^verbatim>\<open>_calculate_onset_strength\<close>, lines 202 to 219. The energy \<^verbatim>\<open>np.sum(frame ** 2)\<close> as
  numpy computes it is the argument \<open>energy\<close>: its value depends on the sample type and on
  numpy's order of summation. Line 216 adds and divides in floating point.
\<close>

definition calculate_onset_strength_fp ::
  "(real \<Rightarrow> real) \<Rightarrow> (real list \<Rightarrow> real) \<Rightarrow> processor \<Rightarrow> real list \<Rightarrow> real" where
  "calculate_onset_strength_fp rnd energy s frame =
     (if length (audio_buffer s) < 2 then 0
      else let current_energy = energy frame in
           if length (audio_buffer s) > 1 then
             let prev_frame = audio_buffer s ! (length (audio_buffer s) - 2);
                 prev_energy = energy prev_frame
             in if prev_energy = 0 then 0
                else rnd (current_energy / rnd (prev_energy + rnd (1 / 10 ^ 10)))
           else 0)"

section \<open>A concrete processor\<close>

text \<open>
  The state built by \<^verbatim>\<open>AdvancedAudioProcessor(samplerate=4000, blocksize=2)\<close>. Its
  frequency axis is \<open>[0, 2000]\<close>, so bin 1 is the only bin of the band 500 to 4000 Hz.
\<close>

definition demo_init :: processor where
  "demo_init =
     \<lparr>samplerate = 4000, blocksize = 2, sensitivity = 1 / 2,
      audio_buffer = [],
      freq_min = 500, freq_max = 4000, freq_threshold = 0.015,
      centroid_history = [], centroid_threshold = 0.4,
      onset_history = [], onset_threshold = 1.5,
      noise_floor = 0.002, noise_floor_history = [],
      is_loud_smoothed = False, loud_counter = 0, loud_threshold = 2,
      loud = False, freq_band_indices = [1]\<rparr>"

text \<open>
  Two frames of two samples each, and the states the processor passes through when the
  callback receives a quiet frame, three loud frames and a quiet frame again.
\<close>

definition quiet :: "real list" where
  "quiet = [1 / 10, - (1 / 10)]"

definition clap :: "real list" where
  "clap = [1, - 1]"

definition st1 :: processor where
  "st1 = demo_init\<lparr>audio_buffer := [quiet], noise_floor_history := [1 / 10]\<rparr>"

definition st2 :: processor where
  "st2 = demo_init\<lparr>audio_buffer := [quiet, clap], noise_floor_history := [1 / 10, 1],
            centroid_history := [2000], onset_history := [20000000000 / 200000001],
            loud_counter := 1, loud := False\<rparr>"

definition st3 :: processor where
  "st3 = demo_init\<lparr>audio_buffer := [quiet, clap, clap],
            noise_floor_history := [1 / 10, 1, 1],
            centroid_history := [2000, 2000],
            onset_history := [20000000000 / 200000001, 20000000000 / 20000000001],
            loud_counter := 2, loud := True\<rparr>"

definition st4 :: processor where
  "st4 = demo_init\<lparr>audio_buffer := [quiet, clap, clap, clap],
            noise_floor_history := [1 / 10, 1, 1, 1],
            centroid_history := [2000, 2000, 2000],
            onset_history := [20000000000 / 200000001, 20000000000 / 20000000001,
                              20000000000 / 20000000001],
            loud_counter := 3, loud := True\<rparr>"

definition st5 :: processor where
  "st5 = demo_init\<lparr>audio_buffer := [clap, clap, clap, quiet],
            noise_floor_history := [1 / 10, 1, 1, 1, 1 / 10],
            centroid_history := [2000, 2000, 2000],
            onset_history := [20000000000 / 200000001, 20000000000 / 20000000001,
                              20000000000 / 20000000001],
            loud_counter := 0, loud := False\<rparr>"

text \<open>The state after a first frame of digital silence.\<close>

definition silent :: "real list" where
  "silent = [0, 0]"

definition st_silent :: processor where
  "st_silent = demo_init\<lparr>audio_buffer := [silent], noise_floor_history := [0]\<rparr>"

definition st_silent_clap :: processor where
  "st_silent_clap =
     demo_init\<lparr>audio_buffer := [silent, clap], noise_floor_history := [0, 1],
               centroid_history := [2000], onset_history := [0],
               loud_counter := 1, loud := False\<rparr>"

text \<open>The state after silence, a loud frame and silence again.\<close>

definition st_scs :: processor where
  "st_scs =
     demo_init\<lparr>audio_buffer := [silent, clap, silent], noise_floor_history := [0, 1, 0],
               centroid_history := [2000], onset_history := [0],
               loud_counter := 0, loud := False\<rparr>"

text \<open>
  The band indices computed by \<^verbatim>\<open>_setup_frequency_bands\<close> address bins of the
  spectrum of a frame of \<^verbatim>\<open>blocksize\<close> samples.
\<close>

definition bands_in_range :: "processor \<Rightarrow> bool" where
  "bands_in_range s =
     (0 < blocksize s \<and> in_range (blocksize s div 2 + 1) (freq_band_indices s))"

text \<open>
  The relation between the counter and the published flag that the debouncer maintains.
\<close>

definition debounce_inv :: "processor \<Rightarrow> bool" where
  "debounce_inv s =
     (0 \<le> loud_counter s \<and> loud s = (loud_counter s \<ge> loud_threshold s)
      \<and> loud_threshold s = 2)"

section \<open>Auxiliary facts\<close>

subsection \<open>The transform and the RMS on small frames\<close>

lemma cis_minus_pi: "cis (- pi) = - 1"
  by (simp add: complex_eq_iff)

lemma rfft_pair:
  "rfft [a, b] = Inr [complex_of_real (a + b), complex_of_real (a - b)]"
proof -
  have two: "{..<2::nat} = {0, 1}" by auto
  show ?thesis
    by (simp add: rfft_def Let_def two cis_minus_pi)
qed

lemma rfft_replicate_zero:
  "0 < n \<Longrightarrow> rfft (replicate n 0) = Inr (replicate (n div 2 + 1) 0)"
  by (simp add: rfft_def Let_def map_replicate_const del: upt_Suc replicate_Suc)

lemma frame_rms_pair: "frame_rms [a, - a] = \<bar>a\<bar>"
  by (simp add: frame_rms_def mean_def)

lemma frame_rms_zero: "frame_rms (replicate n 0) = 0"
  by (simp add: frame_rms_def mean_def sum_list_replicate)

lemma init_demo: "init 4000 2 (1 / 2) = Inr demo_init"
  by (simp add: init_def setup_frequency_bands_def freq_axis_def rfftfreq_def demo_init_def
      upt_rec [of 0] upt_rec [of 1] upt_rec [of 2])

subsection \<open>The callback on the concrete frames\<close>

lemmas eval_defs =
  audio_callback_def process_audio_def observe_noise_floor_def deque_append_def
  audio_buffer_maxlen_def noise_floor_history_maxlen_def centroid_history_maxlen_def
  onset_history_maxlen_def quiet_def clap_def silent_def frame_rms_pair percentile_def
  demo_init_def Let_def rfft_pair fancy_index_def sum_squares_def
  calculate_spectral_centroid_def freq_axis_def rfftfreq_def np_multiply_def
  calculate_onset_strength_def make_decision_def debounce_def power_divide

lemma step1: "audio_callback demo_init quiet = Inr st1"
  by (simp add: eval_defs st1_def)

lemma step2: "audio_callback st1 clap = Inr st2"
  by (simp add: eval_defs st1_def st2_def)

lemma step3: "audio_callback st2 clap = Inr st3"
  by (simp add: eval_defs st2_def st3_def)

lemma step4: "audio_callback st3 clap = Inr st4"
  by (simp add: eval_defs st3_def st4_def)

lemma step5: "audio_callback st4 quiet = Inr st5"
  by (simp add: eval_defs st4_def st5_def)

lemma run_to_st4: "run_frames demo_init [quiet, clap, clap, clap] = Inr st4"
  by (simp add: step1 step2 step3 step4)

lemma run_to_st5: "run_frames demo_init [quiet, clap, clap, clap, quiet] = Inr st5"
  by (simp add: step1 step2 step3 step4 step5)

lemma step_silent: "audio_callback demo_init silent = Inr st_silent"
proof -
  have "frame_rms silent = 0"
    using frame_rms_pair [of 0] by (simp add: silent_def)
  then show ?thesis
    by (simp add: audio_callback_def process_audio_def observe_noise_floor_def
        deque_append_def audio_buffer_maxlen_def noise_floor_history_maxlen_def
        percentile_def Let_def rfft_pair fancy_index_def sum_squares_def
        st_silent_def demo_init_def silent_def)
qed

lemma step_silent_clap: "audio_callback st_silent clap = Inr st_silent_clap"
  by (simp add: eval_defs st_silent_def st_silent_clap_def)

subsection \<open>The shape of a processing step\<close>

text \<open>
  A call of \<^verbatim>\<open>_process_audio\<close> on a non-empty buffer that returns either took one of
  the two early returns, or ran the debouncer on a state that differs from the old one in
  the three histories only.
\<close>

lemma process_audio_shape:
  assumes "process_audio s = Inr s'" and "audio_buffer s \<noteq> []"
  shows "\<exists>c os d.
           s' = s\<lparr>noise_floor_history :=
                     deque_append noise_floor_history_maxlen (noise_floor_history s)
                       (frame_rms (last (audio_buffer s))),
                   loud_counter := 0, loud := False\<rparr>
         \<or> s' = debounce (s\<lparr>noise_floor_history :=
                     deque_append noise_floor_history_maxlen (noise_floor_history s)
                       (frame_rms (last (audio_buffer s))),
                     centroid_history := c, onset_history := os\<rparr>) d"
  using assms unfolding process_audio_def observe_noise_floor_def Let_def
  by (simp split: if_splits sum.splits option.splits prod.splits) blast+

subsection \<open>Preservation of the debounce invariant\<close>

lemma debounce_inv_debounce:
  "0 \<le> loud_counter s \<Longrightarrow> loud_threshold s = 2 \<Longrightarrow> debounce_inv (debounce s d)"
  by (simp add: debounce_inv_def debounce_def Let_def)

lemma debounce_inv_process_audio:
  assumes "debounce_inv s" and "process_audio s = Inr s'"
  shows "debounce_inv s'"
proof (cases "audio_buffer s = []")
  case True
  with assms show ?thesis by (simp add: process_audio_def)
next
  case False
  from process_audio_shape [OF assms(2) False] obtain c os d where
    "s' = s\<lparr>noise_floor_history :=
                     deque_append noise_floor_history_maxlen (noise_floor_history s)
                       (frame_rms (last (audio_buffer s))),
                   loud_counter := 0, loud := False\<rparr>
         \<or> s' = debounce (s\<lparr>noise_floor_history :=
                     deque_append noise_floor_history_maxlen (noise_floor_history s)
                       (frame_rms (last (audio_buffer s))),
                     centroid_history := c, onset_history := os\<rparr>) d"
    by blast
  then show ?thesis
  proof
    assume "s' = s\<lparr>noise_floor_history :=
                     deque_append noise_floor_history_maxlen (noise_floor_history s)
                       (frame_rms (last (audio_buffer s))),
                   loud_counter := 0, loud := False\<rparr>"
    with assms(1) show ?thesis by (simp add: debounce_inv_def)
  next
    assume "s' = debounce (s\<lparr>noise_floor_history :=
                     deque_append noise_floor_history_maxlen (noise_floor_history s)
                       (frame_rms (last (audio_buffer s))),
                     centroid_history := c, onset_history := os\<rparr>) d"
    moreover have "debounce_inv (debounce (s\<lparr>noise_floor_history :=
                     deque_append noise_floor_history_maxlen (noise_floor_history s)
                       (frame_rms (last (audio_buffer s))),
                     centroid_history := c, onset_history := os\<rparr>) d)"
      using assms(1) by (intro debounce_inv_debounce) (simp_all add: debounce_inv_def)
    ultimately show ?thesis by simp
  qed
qed

lemma debounce_inv_audio_callback:
  "debounce_inv s \<Longrightarrow> audio_callback s f = Inr s' \<Longrightarrow> debounce_inv s'"
  using debounce_inv_process_audio
    [of "s\<lparr>audio_buffer := deque_append audio_buffer_maxlen (audio_buffer s) f\<rparr>" s']
  by (simp add: audio_callback_def debounce_inv_def)

lemma debounce_inv_run_frames:
  "debounce_inv s \<Longrightarrow> run_frames s fs = Inr s' \<Longrightarrow> debounce_inv s'"
proof (induction fs arbitrary: s)
  case Nil
  then show ?case by simp
next
  case (Cons f fs)
  then show ?case
    by (auto split: sum.splits dest: debounce_inv_audio_callback)
qed

lemma debounce_inv_init: "init sr bs sens = Inr s0 \<Longrightarrow> debounce_inv s0"
  by (auto simp: init_def setup_frequency_bands_def debounce_inv_def split: sum.splits)

lemma debounce_inv_set_sensitivity:
  "debounce_inv s \<Longrightarrow> debounce_inv (set_sensitivity s x)"
  by (simp add: debounce_inv_def set_sensitivity_def Let_def)

subsection \<open>The deque and the percentile\<close>

lemma deque_append_bounded:
  "0 < n \<Longrightarrow> length d \<le> n \<Longrightarrow>
   deque_append n d x = (if length d = n then tl d @ [x] else d @ [x])"
  by (cases d) (auto simp: deque_append_def Let_def)

lemma deque_append_length: "length d \<le> n \<Longrightarrow> length (deque_append n d x) \<le> n"
  by (auto simp: deque_append_def Let_def)

lemma deque_append_nonempty: "0 < n \<Longrightarrow> deque_append n d x \<noteq> []"
  by (cases d) (auto simp: deque_append_def Let_def)

lemma tenth_floor: "\<lfloor>real m / 10\<rfloor> = int (m div 10)"
  using floor_divide_of_nat_eq [of m 10, where ?'a = real] by simp

lemma tenth_frac: "real m / 10 - real (m div 10) = real (m mod 10) / 10"
proof -
  have "real m = real (10 * (m div 10) + m mod 10)" by simp
  also have "\<dots> = 10 * real (m div 10) + real (m mod 10)"
    by (simp only: of_nat_add of_nat_mult of_nat_numeral)
  finally have "real m = 10 * real (m div 10) + real (m mod 10)" .
  then show ?thesis by (simp add: field_simps)
qed

lemma percentile_tenth:
  assumes "a \<noteq> []"
  shows "percentile a 10 =
           Some (sort a ! ((length a - 1) div 10)
                 + (sort a ! min ((length a - 1) div 10 + 1) (length a - 1)
                    - sort a ! ((length a - 1) div 10))
                   * (real ((length a - 1) mod 10) / 10))"
proof -
  have "percentile a 10 =
          Some (sort a ! nat \<lfloor>real (length a - 1) / 10\<rfloor>
                + (sort a ! min (nat \<lfloor>real (length a - 1) / 10\<rfloor> + 1) (length a - 1)
                   - sort a ! nat \<lfloor>real (length a - 1) / 10\<rfloor>)
                  * (real (length a - 1) / 10 - real (nat \<lfloor>real (length a - 1) / 10\<rfloor>)))"
    using assms by (simp add: percentile_def Let_def)
  also have "nat \<lfloor>real (length a - 1) / 10\<rfloor> = (length a - 1) div 10"
    by (simp only: tenth_floor nat_int)
  finally show ?thesis
    by (simp only: tenth_frac)
qed

lemma percentile_tenth_bounds:
  assumes "a \<noteq> []" and "percentile a 10 = Some v"
  shows "Min (set a) \<le> v \<and> v \<le> Max (set a)"
proof -
  define m where "m = length a - 1"
  define lo where "lo = m div 10"
  define hi where "hi = min (lo + 1) m"
  define g where "g = real (m mod 10) / 10"
  have len: "length (sort a) = m + 1" using assms(1) by (cases a) (simp_all add: m_def)
  have lo_hi: "lo \<le> hi" "hi < length (sort a)" "lo < length (sort a)"
    unfolding hi_def lo_def len by auto
  have le: "sort a ! lo \<le> sort a ! hi"
    using lo_hi by (intro sorted_nth_mono) simp_all
  have g: "0 \<le> g" "g \<le> 1" by (simp_all add: g_def) 
  have v: "v = sort a ! lo + (sort a ! hi - sort a ! lo) * g"
    using assms percentile_tenth [OF assms(1)] by (simp add: m_def lo_def hi_def g_def)
  have mem: "sort a ! lo \<in> set a" "sort a ! hi \<in> set a"
    using lo_hi nth_mem [of lo "sort a"] nth_mem [of hi "sort a"] by simp_all
  have "sort a ! lo \<le> v"
    unfolding v using le g by (simp add: mult_nonneg_nonneg)
  moreover have "v \<le> sort a ! hi"
  proof -
    have "(sort a ! hi - sort a ! lo) * g \<le> (sort a ! hi - sort a ! lo) * 1"
      using le g by (intro mult_left_mono) simp_all
    then show ?thesis unfolding v by simp
  qed
  moreover have "Min (set a) \<le> sort a ! lo" using mem by simp
  moreover have "sort a ! hi \<le> Max (set a)" using mem by simp
  ultimately show ?thesis by linarith
qed

lemma noise_history_process_audio:
  assumes "process_audio s = Inr s'" and "audio_buffer s \<noteq> []"
  shows "noise_floor_history s' =
           deque_append noise_floor_history_maxlen (noise_floor_history s)
             (frame_rms (last (audio_buffer s)))"
  using process_audio_shape [OF assms] by (auto simp: debounce_def Let_def)

lemma noise_history_len_process_audio:
  assumes "length (noise_floor_history s) \<le> 100" and "process_audio s = Inr s'"
  shows "length (noise_floor_history s') \<le> 100"
proof (cases "audio_buffer s = []")
  case True
  with assms show ?thesis by (simp add: process_audio_def)
next
  case False
  from noise_history_process_audio [OF assms(2) False] assms(1) show ?thesis
    by (simp add: deque_append_length noise_floor_history_maxlen_def)
qed

lemma noise_history_len_run_frames:
  "length (noise_floor_history s) \<le> 100 \<Longrightarrow> run_frames s fs = Inr s' \<Longrightarrow>
   length (noise_floor_history s') \<le> 100"
proof (induction fs arbitrary: s)
  case Nil
  then show ?case by simp
next
  case (Cons f fs)
  from Cons.prems(2) obtain s1 where cb: "audio_callback s f = Inr s1"
    and rest: "run_frames s1 fs = Inr s'"
    by (auto split: sum.splits)
  from cb have "process_audio
      (s\<lparr>audio_buffer := deque_append audio_buffer_maxlen (audio_buffer s) f\<rparr>) = Inr s1"
    by (simp add: audio_callback_def)
  with Cons.prems(1) have "length (noise_floor_history s1) \<le> 100"
    using noise_history_len_process_audio
      [of "s\<lparr>audio_buffer := deque_append audio_buffer_maxlen (audio_buffer s) f\<rparr>" s1]
    by simp
  with rest show ?case by (rule Cons.IH [rotated])
qed

lemma noise_history_init: "init sr bs sens = Inr s0 \<Longrightarrow> noise_floor_history s0 = []"
  by (auto simp: init_def setup_frequency_bands_def split: sum.splits)

subsection \<open>Frames of zero spectral energy\<close>

lemma step_scs: "audio_callback st_silent_clap silent = Inr st_scs"
proof -
  have "frame_rms silent = 0"
    using frame_rms_pair [of 0] by (simp add: silent_def)
  then show ?thesis
    by (simp add: audio_callback_def process_audio_def observe_noise_floor_def
        deque_append_def audio_buffer_maxlen_def noise_floor_history_maxlen_def
        percentile_def Let_def rfft_pair fancy_index_def sum_squares_def
        st_silent_clap_def st_scs_def demo_init_def silent_def)
qed

lemma in_range_iff: "in_range n idx = (\<forall>i\<in>set idx. i < n)"
  by (induction idx) auto

lemma rfft_length: "rfft f = Inr fft \<Longrightarrow> f \<noteq> [] \<and> length fft = length f div 2 + 1"
  by (auto simp: rfft_def Let_def split: if_splits)

lemma percentile_total: "\<exists>nf. percentile (deque_append noise_floor_history_maxlen h x) 10 = Some nf"
  using percentile_tenth [of "deque_append noise_floor_history_maxlen h x"]
    deque_append_nonempty [of noise_floor_history_maxlen h x]
  by (simp add: noise_floor_history_maxlen_def)

lemma zero_energy_process_audio:
  assumes "audio_buffer s \<noteq> []" and "rfft (last (audio_buffer s)) = Inr fft"
    and "sum_squares (map cmod fft) = 0"
    and "in_range (length fft) (freq_band_indices s)"
  shows "process_audio s =
           Inr (s\<lparr>noise_floor_history :=
                     deque_append noise_floor_history_maxlen (noise_floor_history s)
                       (frame_rms (last (audio_buffer s))),
                   loud_counter := 0, loud := False\<rparr>)"
proof -
  from rfft_length [OF assms(2)] have ne: "last (audio_buffer s) \<noteq> []" by simp
  obtain nf where nf: "percentile (deque_append noise_floor_history_maxlen
      (noise_floor_history s) (frame_rms (last (audio_buffer s)))) 10 = Some nf"
    using percentile_total by blast
  show ?thesis
    using assms ne nf
    by (simp add: process_audio_def observe_noise_floor_def Let_def fancy_index_def)
qed

lemma bands_in_range_init: "init sr bs sens = Inr s0 \<Longrightarrow> bands_in_range s0 \<and> blocksize s0 = bs"
  by (auto simp: init_def setup_frequency_bands_def freq_axis_def rfftfreq_def
      bands_in_range_def in_range_iff split: sum.splits if_splits)

lemma bands_in_range_process_audio:
  assumes "process_audio s = Inr s'"
  shows "blocksize s' = blocksize s \<and> freq_band_indices s' = freq_band_indices s"
proof (cases "audio_buffer s = []")
  case True
  with assms show ?thesis by (simp add: process_audio_def)
next
  case False
  from process_audio_shape [OF assms False] show ?thesis
    by (auto simp: debounce_def Let_def)
qed

lemma bands_in_range_run_frames:
  "run_frames s fs = Inr s' \<Longrightarrow>
   blocksize s' = blocksize s \<and> freq_band_indices s' = freq_band_indices s"
proof (induction fs arbitrary: s)
  case Nil
  then show ?case by simp
next
  case (Cons f fs)
  from Cons.prems obtain s1 where cb: "audio_callback s f = Inr s1"
    and rest: "run_frames s1 fs = Inr s'"
    by (auto split: sum.splits)
  from cb have "blocksize s1 = blocksize s \<and> freq_band_indices s1 = freq_band_indices s"
    using bands_in_range_process_audio
      [of "s\<lparr>audio_buffer := deque_append audio_buffer_maxlen (audio_buffer s) f\<rparr>" s1]
    by (simp add: audio_callback_def)
  with Cons.IH [OF rest] show ?case by simp
qed

lemma deque_append_last: "0 < n \<Longrightarrow> last (deque_append n d x) = x"
  by (cases d) (auto simp: deque_append_def Let_def)

lemma silent_frame_callback:
  assumes "bands_in_range s"
  shows "audio_callback s (replicate (blocksize s) 0) =
           Inr (s\<lparr>audio_buffer :=
                     deque_append audio_buffer_maxlen (audio_buffer s)
                       (replicate (blocksize s) 0),
                   noise_floor_history :=
                     deque_append noise_floor_history_maxlen (noise_floor_history s) 0,
                   loud_counter := 0, loud := False\<rparr>)"
proof -
  let ?f = "replicate (blocksize s) (0::real)"
  let ?s = "s\<lparr>audio_buffer := deque_append audio_buffer_maxlen (audio_buffer s) ?f\<rparr>"
  from assms have pos: "0 < blocksize s"
    and rng: "in_range (blocksize s div 2 + 1) (freq_band_indices s)"
    by (simp_all add: bands_in_range_def)
  have last: "last (audio_buffer ?s) = ?f"
    by (simp add: deque_append_last audio_buffer_maxlen_def)
  have ne: "audio_buffer ?s \<noteq> []"
    by (simp add: deque_append_nonempty audio_buffer_maxlen_def)
  have fft: "rfft (last (audio_buffer ?s)) = Inr (replicate (blocksize s div 2 + 1) 0)"
    unfolding last using pos by (rule rfft_replicate_zero)
  have zero: "sum_squares (map cmod (replicate (blocksize s div 2 + 1) (0::complex))) = 0"
    by (simp add: sum_squares_def sum_list_replicate del: replicate_Suc)
  have "process_audio ?s =
          Inr (?s\<lparr>noise_floor_history :=
                     deque_append noise_floor_history_maxlen (noise_floor_history ?s)
                       (frame_rms (last (audio_buffer ?s))),
                   loud_counter := 0, loud := False\<rparr>)"
    using zero_energy_process_audio [OF ne fft zero] rng by simp
  then show ?thesis
    unfolding last by (simp add: audio_callback_def frame_rms_zero)
qed

lemma centroid_zero:
  "freq_axis (blocksize s) (samplerate s) = Inr freqs \<Longrightarrow> sum_list magnitude = 0 \<Longrightarrow>
   calculate_spectral_centroid s magnitude = Inr 0"
  by (simp add: calculate_spectral_centroid_def)

subsection \<open>Fields that the classification does not read\<close>

lemma process_audio_freq_threshold:
  "process_audio (s\<lparr>freq_threshold := v\<rparr>) =
     map_sum id (\<lambda>s'. s'\<lparr>freq_threshold := v\<rparr>) (process_audio s)"
  unfolding process_audio_def observe_noise_floor_def calculate_spectral_centroid_def
    calculate_onset_strength_def make_decision_def debounce_def Let_def
  by (simp split: sum.splits option.splits prod.splits)

lemma process_audio_sensitivity:
  "process_audio (s\<lparr>sensitivity := v\<rparr>) =
     map_sum id (\<lambda>s'. s'\<lparr>sensitivity := v\<rparr>) (process_audio s)"
  unfolding process_audio_def observe_noise_floor_def calculate_spectral_centroid_def
    calculate_onset_strength_def make_decision_def debounce_def Let_def
  by (simp split: sum.splits option.splits prod.splits)

lemma audio_callback_freq_threshold:
  "audio_callback (s\<lparr>freq_threshold := v\<rparr>) f =
     map_sum id (\<lambda>s'. s'\<lparr>freq_threshold := v\<rparr>) (audio_callback s f)"
proof -
  have eq: "(s\<lparr>freq_threshold := v\<rparr>)
              \<lparr>audio_buffer := deque_append audio_buffer_maxlen
                                 (audio_buffer (s\<lparr>freq_threshold := v\<rparr>)) f\<rparr>
            = (s\<lparr>audio_buffer := deque_append audio_buffer_maxlen (audio_buffer s) f\<rparr>)
                \<lparr>freq_threshold := v\<rparr>"
    by simp
  show ?thesis
    unfolding audio_callback_def eq by (rule process_audio_freq_threshold)
qed

lemma audio_callback_sensitivity:
  "audio_callback (s\<lparr>sensitivity := v\<rparr>) f =
     map_sum id (\<lambda>s'. s'\<lparr>sensitivity := v\<rparr>) (audio_callback s f)"
proof -
  have eq: "(s\<lparr>sensitivity := v\<rparr>)
              \<lparr>audio_buffer := deque_append audio_buffer_maxlen
                                 (audio_buffer (s\<lparr>sensitivity := v\<rparr>)) f\<rparr>
            = (s\<lparr>audio_buffer := deque_append audio_buffer_maxlen (audio_buffer s) f\<rparr>)
                \<lparr>sensitivity := v\<rparr>"
    by simp
  show ?thesis
    unfolding audio_callback_def eq by (rule process_audio_sensitivity)
qed

lemma run_frames_freq_threshold:
  "run_frames (s\<lparr>freq_threshold := v\<rparr>) fs =
     map_sum id (\<lambda>s'. s'\<lparr>freq_threshold := v\<rparr>) (run_frames s fs)"
proof (induction fs arbitrary: s)
  case Nil
  show ?case by simp
next
  case (Cons f fs)
  show ?case
    by (cases "audio_callback s f") (simp_all add: audio_callback_freq_threshold Cons.IH)
qed

lemma run_frames_sensitivity:
  "run_frames (s\<lparr>sensitivity := v\<rparr>) fs =
     map_sum id (\<lambda>s'. s'\<lparr>sensitivity := v\<rparr>) (run_frames s fs)"
proof (induction fs arbitrary: s)
  case Nil
  show ?case by simp
next
  case (Cons f fs)
  show ?case
    by (cases "audio_callback s f") (simp_all add: audio_callback_sensitivity Cons.IH)
qed

subsection \<open>Rounding to binary64\<close>

lemma round_half_even_floor: "\<lfloor>y\<rfloor> \<le> round_half_even y \<and> round_half_even y \<le> \<lfloor>y\<rfloor> + 1"
  by (simp add: round_half_even_def Let_def)

lemma round_half_even_error: "\<bar>of_int (round_half_even y) - y\<bar> \<le> 1 / 2"
proof -
  have "of_int \<lfloor>y\<rfloor> \<le> y" "y < of_int \<lfloor>y\<rfloor> + 1" by linarith+
  then show ?thesis
    by (auto simp: round_half_even_def Let_def)
qed

lemma round_half_even_of_int [simp]: "round_half_even (of_int n) = n"
  by (simp add: round_half_even_def)

lemma round_half_even_zero [simp]: "round_half_even 0 = 0"
  by (simp add: round_half_even_def)

lemma round_half_even_mono:
  assumes "a \<le> b"
  shows "round_half_even a \<le> round_half_even b"
proof (cases "\<lfloor>a\<rfloor> = \<lfloor>b\<rfloor>")
  case True
  with assms show ?thesis
    by (auto simp: round_half_even_def Let_def)
next
  case False
  with assms have "\<lfloor>a\<rfloor> + 1 \<le> \<lfloor>b\<rfloor>"
    using floor_mono [OF assms] by linarith
  with round_half_even_floor [of a] round_half_even_floor [of b] show ?thesis
    by linarith
qed

lemma round_half_even_between:
  "of_int m \<le> y \<Longrightarrow> y \<le> of_int n \<Longrightarrow> m \<le> round_half_even y \<and> round_half_even y \<le> n"
  using round_half_even_mono [of "of_int m" y] round_half_even_mono [of y "of_int n"]
  by simp

lemma round_half_even_ge: "of_int m \<le> y \<Longrightarrow> m \<le> round_half_even y"
  using round_half_even_mono [of "of_int m" y] by simp

lemma round_half_even_le: "y \<le> of_int n \<Longrightarrow> round_half_even y \<le> n"
  using round_half_even_mono [of y "of_int n"] by simp

lemma of_int_powi2: "0 \<le> k \<Longrightarrow> real_of_int (2 ^ nat k) = 2 powi k"
  by (simp add: power_int_def)

lemma binade:
  assumes "0 < x"
  shows "2 powi \<lfloor>log 2 x\<rfloor> \<le> x \<and> x < 2 powi (\<lfloor>log 2 x\<rfloor> + 1)"
proof -
  have "2 powr real_of_int \<lfloor>log 2 x\<rfloor> \<le> x \<and> x < 2 powr (real_of_int \<lfloor>log 2 x\<rfloor> + 1)"
    using floor_log_eq_powr_iff [of x 2 "\<lfloor>log 2 x\<rfloor>"] assms by simp
  moreover have "real_of_int \<lfloor>log 2 x\<rfloor> + 1 = real_of_int (\<lfloor>log 2 x\<rfloor> + 1)" by simp
  ultimately show ?thesis
    by (simp only: powr_real_of_int' [of 2, simplified])
qed

lemma binade_eq:
  assumes "0 < x" and "2 powi E \<le> x" and "x < 2 powi (E + 1)"
  shows "\<lfloor>log 2 x\<rfloor> = E"
proof -
  have "real_of_int E + 1 = real_of_int (E + 1)" by simp
  then have "2 powr real_of_int E \<le> x \<and> x < 2 powr (real_of_int E + 1)"
    using assms by (simp only: powr_real_of_int' [of 2, simplified])
  then show ?thesis
    using floor_log_eq_powr_iff [of x 2 E] assms(1) by simp
qed


lemma powi2_pos [simp]: "0 < (2::real) powi e"
  by simp

lemma powi2_add: "(2::real) powi a * 2 powi b = 2 powi (a + b)"
  by (simp add: power_int_add)

lemma powi2_mono: "a \<le> b \<Longrightarrow> (2::real) powi a \<le> 2 powi b"
  by (rule power_int_increasing) simp_all

lemma b64_abs_expand:
  assumes "0 < x"
  shows "b64_abs x =
           of_int (round_half_even (x / 2 powi max (\<lfloor>log 2 x\<rfloor> - 52) (- 1074)))
           * 2 powi max (\<lfloor>log 2 x\<rfloor> - 52) (- 1074)"
  using assms by (simp add: b64_abs_def Let_def)

lemma b64_abs_nonneg: "0 \<le> x \<Longrightarrow> 0 \<le> b64_abs x"
proof (cases "x = 0")
  case True
  then show ?thesis by (simp add: b64_abs_def)
next
  case False
  assume "0 \<le> x"
  with False have pos: "0 < x" by simp
  let ?e = "max (\<lfloor>log 2 x\<rfloor> - 52) (- 1074)"
  have "of_int 0 \<le> x / 2 powi ?e" using pos by simp
  then have "0 \<le> round_half_even (x / 2 powi ?e)"
    using round_half_even_mono [of "of_int 0" "x / 2 powi ?e"] by simp
  then show ?thesis
    unfolding b64_abs_expand [OF pos] by simp
qed

lemma b64_abs_half_ulp:
  assumes "0 < x"
  shows "\<bar>b64_abs x - x\<bar> \<le> 2 powi max (\<lfloor>log 2 x\<rfloor> - 52) (- 1074) / 2"
proof -
  let ?e = "max (\<lfloor>log 2 x\<rfloor> - 52) (- 1074)"
  let ?u = "(2::real) powi ?e"
  have u: "0 < ?u" by simp
  have "b64_abs x - x = (of_int (round_half_even (x / ?u)) - x / ?u) * ?u"
    unfolding b64_abs_expand [OF assms] using u by (simp add: algebra_simps)
  then have "\<bar>b64_abs x - x\<bar> = \<bar>of_int (round_half_even (x / ?u)) - x / ?u\<bar> * ?u"
    using u by (simp add: abs_mult)
  also have "\<dots> \<le> 1 / 2 * ?u"
    using round_half_even_error [of "x / ?u"] u by (intro mult_right_mono) simp_all
  finally show ?thesis by simp
qed

lemma b64_abs_mono:
  assumes "0 \<le> x" and "x \<le> y"
  shows "b64_abs x \<le> b64_abs y"
proof (cases "x = 0")
  case True
  with assms b64_abs_nonneg [of y] show ?thesis by (simp add: b64_abs_def)
next
  case False
  with assms have px: "0 < x" and py: "0 < y" by simp_all
  let ?Ex = "\<lfloor>log 2 x\<rfloor>" and ?Ey = "\<lfloor>log 2 y\<rfloor>"
  let ?ex = "max (?Ex - 52) (- 1074)" and ?ey = "max (?Ey - 52) (- 1074)"
  have "log 2 x \<le> log 2 y" using px py assms(2) by simp
  then have E: "?Ex \<le> ?Ey" by (rule floor_mono)
  then have e: "?ex \<le> ?ey" by simp
  have p53: "real_of_int (2 ^ nat 53) = 2 powi 53" by (rule of_int_powi2) simp
  have p52: "real_of_int (2 ^ nat 52) = 2 powi 52" by (rule of_int_powi2) simp
  show ?thesis
  proof (cases "?ex = ?ey")
    case True
    have "x / 2 powi ?ex \<le> y / 2 powi ?ex"
      using assms(2) by (simp add: divide_right_mono)
    then have "round_half_even (x / 2 powi ?ex) \<le> round_half_even (y / 2 powi ?ex)"
      by (rule round_half_even_mono)
    then have "of_int (round_half_even (x / 2 powi ?ex)) * 2 powi ?ex
               \<le> of_int (round_half_even (y / 2 powi ?ex)) * (2::real) powi ?ex"
      by (intro mult_right_mono) simp_all
    then show ?thesis
      unfolding b64_abs_expand [OF px] b64_abs_expand [OF py] True [symmetric] .
  next
    case False
    with e have lt: "?ex + 1 \<le> ?ey" by simp
    then have ey: "?ey = ?Ey - 52" by linarith
    have "x < 2 powi (?Ex + 1)" using binade [OF px] by simp
    also have "\<dots> \<le> 2 powi (?ex + 53)" by (rule powi2_mono) simp
    finally have "x / 2 powi ?ex < 2 powi (?ex + 53) / 2 powi ?ex"
      by (simp add: divide_strict_right_mono)
    also have "\<dots> = 2 powi 53" by (simp add: power_int_add)
    finally have "x / 2 powi ?ex < 2 powi 53" .
    then have "x / 2 powi ?ex \<le> real_of_int (2 ^ nat 53)"
      using p53 by linarith
    then have "round_half_even (x / 2 powi ?ex) \<le> 2 ^ nat 53"
      by (rule round_half_even_le)
    then have "real_of_int (round_half_even (x / 2 powi ?ex)) \<le> real_of_int (2 ^ nat 53)"
      by (simp only: of_int_le_iff)
    then have "of_int (round_half_even (x / 2 powi ?ex)) \<le> (2::real) powi 53"
      using p53 by linarith
    then have "b64_abs x \<le> 2 powi 53 * 2 powi ?ex"
      unfolding b64_abs_expand [OF px] by (intro mult_right_mono) simp_all
    also have "\<dots> = 2 powi (?ex + 53)" by (simp only: powi2_add add.commute)
    also have "\<dots> \<le> 2 powi (?ey + 52)" using lt by (intro powi2_mono) simp
    finally have upper: "b64_abs x \<le> 2 powi (?ey + 52)" .
    have "2 powi ?Ey \<le> y" using binade [OF py] by simp
    then have "2 powi ?Ey / 2 powi ?ey \<le> y / 2 powi ?ey"
      by (simp add: divide_right_mono)
    moreover have "(2::real) powi ?Ey / 2 powi ?ey = 2 powi 52"
      unfolding ey by (simp add: power_int_diff)
    ultimately have "real_of_int (2 ^ nat 52) \<le> y / 2 powi ?ey"
      using p52 by linarith
    then have "2 ^ nat 52 \<le> round_half_even (y / 2 powi ?ey)"
      by (rule round_half_even_ge)
    then have "real_of_int (2 ^ nat 52) \<le> real_of_int (round_half_even (y / 2 powi ?ey))"
      by (simp only: of_int_le_iff)
    then have "(2::real) powi 52 \<le> of_int (round_half_even (y / 2 powi ?ey))"
      using p52 by linarith
    then have "2 powi 52 * 2 powi ?ey \<le> b64_abs y"
      unfolding b64_abs_expand [OF py] by (intro mult_right_mono) simp_all
    moreover have "(2::real) powi 52 * 2 powi ?ey = 2 powi (?ey + 52)"
      by (simp only: powi2_add add.commute)
    ultimately show ?thesis using upper by linarith
  qed
qed

lemma b64_mono:
  assumes "x \<le> y"
  shows "b64 x \<le> b64 y"
proof -
  consider "0 \<le> x" | "y < 0" | "x < 0" "0 \<le> y" by linarith
  then show ?thesis
  proof cases
    case 1
    with assms b64_abs_mono [of x y] show ?thesis by (simp add: b64_def)
  next
    case 2
    with assms b64_abs_mono [of "- y" "- x"] show ?thesis by (simp add: b64_def)
  next
    case 3
    with b64_abs_nonneg [of "- x"] b64_abs_nonneg [of y] show ?thesis
      by (simp add: b64_def)
  qed
qed


lemma b64_eval:
  assumes "0 < x" and "2 powi E \<le> x" and "x < 2 powi (E + 1)" and "- 1022 \<le> E"
    and "round_half_even (x / 2 powi (E - 52)) = n"
  shows "b64 x = of_int n * 2 powi (E - 52)"
proof -
  have "\<lfloor>log 2 x\<rfloor> = E" using assms(1-3) by (rule binade_eq)
  moreover have "max (E - 52) (- 1074) = E - 52" using assms(4) by simp
  ultimately show ?thesis
    using assms(1,5) by (simp add: b64_def b64_abs_expand)
qed


lemma round_half_even_up:
  "y \<le> of_int f \<Longrightarrow> of_int f - y < 1 / 2 \<Longrightarrow> round_half_even y = f"
proof (cases "y = of_int f")
  case True
  then show ?thesis by simp
next
  case False
  assume a: "y \<le> of_int f" "of_int f - y < 1 / 2"
  with False have "\<lfloor>y\<rfloor> = f - 1" by linarith
  with a False show ?thesis by (simp add: round_half_even_def Let_def)
qed



lemma b64_exact:
  assumes "0 < x" and "2 powi E \<le> x" and "x < 2 powi (E + 1)" and "- 1022 \<le> E"
    and "x / 2 powi (E - 52) = of_int n"
  shows "b64 x = x"
proof -
  have "round_half_even (x / 2 powi (E - 52)) = n"
    unfolding assms(5) by simp
  from b64_eval [OF assms(1-4) this] assms(5) show ?thesis
    by (simp add: field_simps)
qed






lemma b64_zero [simp]: "b64 0 = 0"
  by (simp add: b64_def b64_abs_def)


lemma powi2_less_imp: "(2::real) powi a < 2 powi b \<Longrightarrow> a < b"
proof (rule ccontr)
  assume "2 powi a < (2::real) powi b" and "\<not> a < b"
  then have "(2::real) powi b \<le> 2 powi a" by (intro powi2_mono) simp
  with \<open>2 powi a < (2::real) powi b\<close> show False by simp
qed

lemma powi2_le_imp: "(2::real) powi a \<le> 2 powi b \<Longrightarrow> a \<le> b"
proof (rule ccontr)
  assume "2 powi a \<le> (2::real) powi b" and "\<not> a \<le> b"
  then have "(2::real) powi b < 2 powi a" by (intro power_int_strict_increasing) simp_all
  with \<open>2 powi a \<le> (2::real) powi b\<close> show False by simp
qed

lemma b64_relative_error:
  assumes "2 powi (- 1022) \<le> x"
  shows "\<bar>b64 x - x\<bar> \<le> x * 2 powi (- 53)"
proof -
  have pos: "0 < x"
    using assms zero_less_power_int [of "2::real" "- 1022"] by linarith
  let ?E = "\<lfloor>log 2 x\<rfloor>"
  have "(2::real) powi (- 1022) < 2 powi (?E + 1)"
    using assms binade [OF pos] by linarith
  then have "- 1022 < ?E + 1"
    by (rule powi2_less_imp)
  then have e: "max (?E - 52) (- 1074) = ?E - 52" by linarith
  have "\<bar>b64 x - x\<bar> \<le> 2 powi (?E - 52) / 2"
    using b64_abs_half_ulp [OF pos] pos by (simp add: b64_def e)
  also have "\<dots> = 2 powi ?E * 2 powi (- 53)"
    by (simp add: power_int_diff)
  also have "\<dots> \<le> x * 2 powi (- 53)"
    using binade [OF pos] by (intro mult_right_mono) simp_all
  finally show ?thesis .
qed

lemma b64_absolute_error:
  assumes "0 \<le> x" and "x \<le> 4"
  shows "\<bar>b64 x - x\<bar> \<le> 2 powi (- 51)"
proof (cases "x = 0")
  case True
  then show ?thesis by simp
next
  case False
  with assms have pos: "0 < x" by simp
  let ?E = "\<lfloor>log 2 x\<rfloor>"
  have "(2::real) powi ?E \<le> 2 powi 2"
    using binade [OF pos] assms(2) by simp
  then have "?E \<le> 2"
    by (rule powi2_le_imp)
  then have e: "max (?E - 52) (- 1074) \<le> - 50" by simp
  have "\<bar>b64 x - x\<bar> \<le> 2 powi max (?E - 52) (- 1074) / 2"
    using b64_abs_half_ulp [OF pos] pos by (simp add: b64_def)
  also have "\<dots> \<le> 2 powi (- 50) / 2"
    using powi2_mono [OF e] by simp
  also have "\<dots> = 2 powi (- 51)" by simp
  finally show ?thesis .
qed

lemma eps64: "b64 (1 / 10 ^ 10) = 7737125245533627 / 2 ^ 86"
  using b64_eval [of "1 / 10 ^ 10" "- 34" 7737125245533627]
    round_half_even_up [of "1 / 10 ^ 10 / 2 powi (- 34 - 52)" 7737125245533627]
  by simp


lemma ratio_range:
  fixes E e D k d :: real
  assumes E: "0 < E" and e: "0 < e" and k: "0 \<le> k"
    and d: "0 \<le> d" "d \<le> 1 / 4"
    and D: "\<bar>D - (E + e)\<bar> \<le> (E + e) * d"
  shows "0 < D" and "(E + e) * (1 - d) \<le> D"
    and "0 \<le> k * E / D" and "k * E / D \<le> k / (1 - d)"
proof -
  let ?a = "E + e"
  have a: "0 < ?a" "E \<le> ?a" using E e by simp_all
  have d1: "0 < 1 - d" using d by simp
  show lo: "?a * (1 - d) \<le> D" using D by (simp add: abs_le_iff algebra_simps)
  have apos: "0 < ?a * (1 - d)" using a d1 by simp
  then show Dpos: "0 < D" using lo by linarith
  show "0 \<le> k * E / D" using k E Dpos by simp
  have prod: "0 < D * (?a * (1 - d))" using Dpos apos by (rule mult_pos_pos)
  have kE: "0 \<le> k * E" using k E by simp
  have "k * E / D \<le> k * E / (?a * (1 - d))"
    using lo kE prod by (rule divide_left_mono)
  also have "\<dots> = (k / (1 - d)) * (E / ?a)" by simp
  also have "\<dots> \<le> (k / (1 - d)) * 1"
    using a k d1 by (intro mult_left_mono) simp_all
  finally show "k * E / D \<le> k / (1 - d)" by simp
qed

lemma ratio_algebra:
  fixes E e D r k d h :: real
  assumes E: "0 < E" and e: "0 < e" and k: "0 \<le> k"
    and d: "0 \<le> d" "d \<le> 1 / 4"
    and D: "\<bar>D - (E + e)\<bar> \<le> (E + e) * d"
    and r: "\<bar>r - k * E / D\<bar> \<le> h"
  shows "\<bar>r - k\<bar> \<le> h + k * (e / (1 - d)) / E + k * (d / (1 - d))"
proof -
  define a where "a = E + e"
  have a: "0 < a" "E \<le> a" using E e by (simp_all add: a_def)
  have d1: "0 < 1 - d" using d by simp
  note rng = ratio_range [OF E e k d D]
  have lo: "a * (1 - d) \<le> D" using rng(2) by (simp add: a_def)
  have Dpos: "0 < D" by (rule rng(1))
  have apos: "0 < a * (1 - d)" using a d1 by simp
  have diff: "\<bar>E - D\<bar> \<le> e + a * d" using D e by (simp add: abs_le_iff a_def)
  have "0 \<le> a * d" using a(1) d(1) by simp
  then have "0 \<le> e + a * d" using e by linarith
  then have num: "0 \<le> k * (e + a * d)" using k by (rule mult_nonneg_nonneg [rotated])
  have "k * E / D - k = k * (E - D) / D"
    using Dpos by (simp add: field_simps)
  then have "\<bar>k * E / D - k\<bar> = k * \<bar>E - D\<bar> / D"
    using k Dpos by (simp add: abs_mult)
  also have "\<dots> \<le> k * (e + a * d) / D"
    using diff k Dpos by (intro divide_right_mono mult_left_mono) simp_all
  also have "\<dots> \<le> k * (e + a * d) / (a * (1 - d))"
  proof -
    have prod: "0 < D * (a * (1 - d))" using Dpos apos by (rule mult_pos_pos)
    from lo num prod show ?thesis by (rule divide_left_mono)
  qed
  also have "\<dots> = k * (e / (1 - d)) / a + k * (d / (1 - d))"
  proof -
    have "k * (e + a * d) / (a * (1 - d))
            = k * e / (a * (1 - d)) + k * (a * d) / (a * (1 - d))"
      by (simp add: distrib_left add_divide_distrib)
    moreover have "k * (a * d) / (a * (1 - d)) = k * (d / (1 - d))"
      using a(1) by simp
    moreover have "k * e / (a * (1 - d)) = k * (e / (1 - d)) / a"
      by (simp add: mult.commute)
    ultimately show ?thesis by simp
  qed
  also have "\<dots> \<le> k * (e / (1 - d)) / E + k * (d / (1 - d))"
  proof -
    have "0 \<le> k * (e / (1 - d))"
      using k e d1 by (intro mult_nonneg_nonneg) simp_all
    moreover have "0 < a * E" using a(1) E by (rule mult_pos_pos)
    ultimately have "k * (e / (1 - d)) / a \<le> k * (e / (1 - d)) / E"
      using a(2) by (intro divide_left_mono)
    then show ?thesis by simp
  qed
  finally have qk: "\<bar>k * E / D - k\<bar> \<le> k * (e / (1 - d)) / E + k * (d / (1 - d))" .
  have fin: "\<bar>r - k\<bar> \<le> h + B" if "\<bar>r - q\<bar> \<le> h" and "\<bar>q - k\<bar> \<le> B" for q B :: real
    using that by arith
  from fin [OF r qk] show ?thesis by (simp only: add.assoc)
qed

lemma onset_ratio_bound:
  assumes E: "0 < E" and k: "0 \<le> k" "k \<le> 3"
  shows "\<bar>b64 (k * E / b64 (E + b64 (1 / 10 ^ 10))) - k\<bar>
           \<le> k * (2 / 10 ^ 10) / E + 1 / 10 ^ 6"
proof -
  define e :: real where "e = 7737125245533627 / 2 ^ 86"
  define d :: real where "d = 2 powi (- 53)"
  define D where "D = b64 (E + e)"
  define h :: real where "h = 2 powi (- 51)"
  have e: "0 < e" "e / (1 - d) \<le> 2 / 10 ^ 10" "2 powi (- 1022) \<le> e"
    by (simp_all add: e_def d_def)
  have d: "0 \<le> d" "d \<le> 1 / 4" "d / (1 - d) \<le> 1 / 10 ^ 7" "1 / (1 - d) \<le> 4 / 3"
    by (simp_all add: d_def)
  have "2 powi (- 1022) \<le> E + e" using e(3) E by linarith
  then have Derr: "\<bar>D - (E + e)\<bar> \<le> (E + e) * d"
    unfolding D_def d_def by (rule b64_relative_error)
  have q: "0 \<le> k * E / D" "k * E / D \<le> k / (1 - d)"
    using ratio_range(3,4) [OF E e(1) k(1) d(1,2) Derr] by simp_all
  have "k / (1 - d) = k * (1 / (1 - d))" by simp
  also have "\<dots> \<le> 3 * (4 / 3)"
    using k d by (intro mult_mono) simp_all
  finally have "k * E / D \<le> 4" using q(2) by simp
  with q(1) have rerr: "\<bar>b64 (k * E / D) - k * E / D\<bar> \<le> h"
    unfolding h_def by (intro b64_absolute_error)
  have main: "\<bar>b64 (k * E / D) - k\<bar> \<le> h + k * (e / (1 - d)) / E + k * (d / (1 - d))"
    by (rule ratio_algebra [OF E e(1) k(1) d(1,2) Derr rerr])
  have t1: "k * (e / (1 - d)) / E \<le> k * (2 / 10 ^ 10) / E"
    using e(2) k(1) E by (intro divide_right_mono mult_left_mono) simp_all
  have "0 \<le> d / (1 - d)" using d(1,2) by simp
  then have t2: "k * (d / (1 - d)) \<le> 3 * (1 / 10 ^ 7)"
    using d(3) k by (intro mult_mono) simp_all
  have t3: "h + 3 * (1 / 10 ^ 7) \<le> 1 / 10 ^ 6" by (simp add: h_def)
  from main t1 t2 t3 have "\<bar>b64 (k * E / D) - k\<bar> \<le> k * (2 / 10 ^ 10) / E + 1 / 10 ^ 6"
    by linarith
  then show ?thesis
    by (simp only: D_def e_def eps64)
qed

lemma small_energy_ratio:
  "b64 ((1 / 10 ^ 10) / b64 (1 / 10 ^ 10 + b64 (1 / 10 ^ 10))) \<le> 3 / 4"
proof -
  define e :: real where "e = 7737125245533627 / 2 ^ 86"
  define a :: real where "a = 1 / 10 ^ 10 + e"
  define D where "D = b64 a"
  define d :: real where "d = 2 powi (- 53)"
  have a: "2 powi (- 1022) \<le> a" "19 / 10 ^ 11 \<le> a * (1 - d)"
    by (simp_all add: a_def e_def d_def)
  have "\<bar>D - a\<bar> \<le> a * d"
    unfolding D_def d_def using a(1) by (rule b64_relative_error)
  then have "a * (1 - d) \<le> D"
    by (simp add: abs_le_iff algebra_simps)
  with a(2) have D: "19 / 10 ^ 11 \<le> D" by linarith
  then have Dpos: "0 < D" by simp
  have "(1 / 10 ^ 10) / D \<le> (1 / 10 ^ 10) / (19 / 10 ^ 11)"
    using D Dpos by (intro divide_left_mono) simp_all
  then have q: "(1 / 10 ^ 10) / D \<le> 10 / 19" by simp
  define q where "q = (1 / 10 ^ 10) / D"
  define h :: real where "h = 2 powi (- 51)"
  have q0: "0 \<le> q" using Dpos by (simp add: q_def)
  have q1: "q \<le> 10 / 19" using q by (simp add: q_def)
  then have "q \<le> 4" by simp
  with q0 have "\<bar>b64 q - q\<bar> \<le> h"
    unfolding h_def by (rule b64_absolute_error)
  then have "b64 q \<le> q + h" by arith
  also have "\<dots> \<le> 10 / 19 + h" using q1 by simp
  also have "\<dots> \<le> 3 / 4" by (simp add: h_def)
  finally show ?thesis
    by (simp only: q_def D_def a_def e_def eps64)
qed

lemma formula_after_silence: "10 ^ 10 \<le> b64 (2 / b64 (0 + b64 (1 / 10 ^ 10)))"
proof -
  have e: "b64 (7737125245533627 / 2 ^ 86) = 7737125245533627 / 2 ^ 86"
    using b64_exact [of "7737125245533627 / 2 ^ 86" "- 34" 7737125245533627] by simp
  have t: "b64 (10 ^ 10) = 10 ^ 10"
    using b64_exact [of "10 ^ 10" 33 "10 ^ 10 * 2 ^ 19"] by simp
  have "(10 ^ 10 :: real) \<le> 2 / (7737125245533627 / 2 ^ 86)" by simp
  then have "b64 (10 ^ 10) \<le> b64 (2 / (7737125245533627 / 2 ^ 86))"
    by (rule b64_mono)
  then have "10 ^ 10 \<le> b64 (2 / (7737125245533627 / 2 ^ 86))"
    by (simp only: t)
  moreover have "b64 (0 + b64 (1 / 10 ^ 10)) = 7737125245533627 / 2 ^ 86"
    by (simp only: eps64 add_0 e)
  ultimately show ?thesis by (simp only:)
qed

subsection \<open>The methods with rounding\<close>

lemma set_sensitivity_exact: "set_sensitivity s x = set_sensitivity_fp (\<lambda>v. v) s x"
  by (simp add: set_sensitivity_def set_sensitivity_fp_def)

lemma calculate_onset_strength_exact:
  "calculate_onset_strength s frame = calculate_onset_strength_fp (\<lambda>v. v) sum_squares s frame"
  by (simp add: calculate_onset_strength_def calculate_onset_strength_fp_def)


section \<open>The decision engine\<close>

text \<open>
  C1. For every input (rms, noise floor, band-energy ratio, centroid, onset ratio) the
  decision is true if and only if the onset check and the frequency check both hold, or
  at least three of the four checks (rms above 1.5 times the floor, band ratio above 0.35,
  centroid strictly between 800 and 5000, onset ratio above the onset threshold) hold.
\<close>

theorem make_decision_iff:
  "make_decision s rms nf band_ratio centroid onset_strength =
     (let rms_check = (rms > nf * 1.5);
          freq_check = (band_ratio > 0.35);
          centroid_check = (800 < centroid \<and> centroid < 5000);
          onset_check = (onset_strength > onset_threshold s)
      in (onset_check \<and> freq_check)
         \<or> 3 \<le> length (filter (\<lambda>b. b)
                           [rms_check, freq_check, centroid_check, onset_check]))"
  unfolding make_decision_def Let_def
  by (cases "rms > nf * 1.5"; cases "band_ratio > 0.35";
      cases "centroid > 800 \<and> centroid < 5000";
      cases "onset_strength > onset_threshold s") simp_all

section \<open>The debouncer\<close>

text \<open>
  C2. One debounce step on a counter \<open>c \<ge> 0\<close> with raw decision \<open>d\<close> sets the counter
  to \<open>c + 1\<close> when \<open>d\<close> is true and to \<open>max 0 (c - 1)\<close> when it is false, and the reported
  loud state afterwards is true exactly when the new counter is at least 2.
\<close>

theorem debounce_step:
  assumes "0 \<le> loud_counter s" and "loud_threshold s = 2"
  shows "loud_counter (debounce s d) =
           (if d then loud_counter s + 1 else max 0 (loud_counter s - 1))
         \<and> is_loud (debounce s d) = (loud_counter (debounce s d) \<ge> 2)"
  using assms by (simp add: debounce_def is_loud_def Let_def)

theorem debounce_step_witness:
  "0 \<le> loud_counter (demo_init\<lparr>loud_counter := 1\<rparr>)
   \<and> loud_threshold (demo_init\<lparr>loud_counter := 1\<rparr>) = 2
   \<and> loud_counter (debounce (demo_init\<lparr>loud_counter := 1\<rparr>) True) = 2
   \<and> is_loud (debounce (demo_init\<lparr>loud_counter := 1\<rparr>) True)
   \<and> loud_counter (debounce (demo_init\<lparr>loud_counter := 1\<rparr>) False) = 0
   \<and> \<not> is_loud (debounce (demo_init\<lparr>loud_counter := 1\<rparr>) False)"
  using debounce_step [of "demo_init\<lparr>loud_counter := 1\<rparr>" True]
    debounce_step [of "demo_init\<lparr>loud_counter := 1\<rparr>" False]
  by (simp add: demo_init_def)

text \<open>
  C3. From the initial debounce state (counter 0, not loud, two frames required) the raw
  decisions true, true, false, false give the counter values 1, 2, 1, 0. The flag is
  recomputed from the counter at every step, so the loud trace is false, true, false,
  false: the third step leaves the counter at 1, below the two frames required.
\<close>

theorem debounce_trace:
  assumes "loud_counter s0 = 0" and "\<not> loud s0" and "loud_threshold s0 = 2"
  shows "let s1 = debounce s0 True; s2 = debounce s1 True;
             s3 = debounce s2 False; s4 = debounce s3 False
         in [is_loud s1, is_loud s2, is_loud s3, is_loud s4] = [False, True, False, False]
            \<and> [loud_counter s1, loud_counter s2, loud_counter s3, loud_counter s4]
                = [1, 2, 1, 0]"
  using assms by (simp add: debounce_def is_loud_def Let_def)

theorem debounce_trace_witness:
  "loud_counter demo_init = 0 \<and> \<not> loud demo_init \<and> loud_threshold demo_init = 2
   \<and> map is_loud [debounce demo_init True,
                   debounce (debounce demo_init True) True,
                   debounce (debounce (debounce demo_init True) True) False,
                   debounce (debounce (debounce (debounce demo_init True) True) False) False]
       = [False, True, False, False]"
  using debounce_trace [of demo_init]
  by (simp add: demo_init_def Let_def)

text \<open>
  The trace false, true, true, false is not the one the debouncer produces: after the
  decisions true, true, false the counter is 1 and the flag is false.
\<close>

theorem debounce_trace_counterexample:
  "map is_loud [debounce demo_init True,
                debounce (debounce demo_init True) True,
                debounce (debounce (debounce demo_init True) True) False,
                debounce (debounce (debounce (debounce demo_init True) True) False) False]
     \<noteq> [False, True, True, False]
   \<and> loud_counter (debounce (debounce (debounce demo_init True) True) False) = 1
   \<and> \<not> is_loud (debounce (debounce (debounce demo_init True) True) False)"
  by (simp add: debounce_def is_loud_def demo_init_def Let_def)

text \<open>
  C9. At initialisation and after every call of the per-frame processing that returns,
  whichever of its return paths is taken, the counter is not negative, the published flag
  equals the comparison of the counter with the threshold, and the threshold is 2. The
  same holds after any stream of frames and after a change of the sensitivity.
\<close>

theorem debounce_invariant:
  "(init sr bs sens = Inr s0 \<longrightarrow> debounce_inv s0)
   \<and> (debounce_inv s \<and> process_audio s = Inr s' \<longrightarrow> debounce_inv s')
   \<and> (debounce_inv s \<and> audio_callback s f = Inr s' \<longrightarrow> debounce_inv s')
   \<and> (debounce_inv s \<longrightarrow> debounce_inv (set_sensitivity s x))
   \<and> (init sr bs sens = Inr s0 \<and> run_frames s0 fs = Inr s'' \<longrightarrow> debounce_inv s'')"
  using debounce_inv_init debounce_inv_process_audio debounce_inv_audio_callback
    debounce_inv_run_frames debounce_inv_set_sensitivity by blast

theorem debounce_invariant_witness:
  "init 4000 2 (1 / 2) = Inr demo_init
   \<and> run_frames demo_init [quiet, clap, clap, clap] = Inr st4
   \<and> audio_callback st4 quiet = Inr st5
   \<and> debounce_inv demo_init \<and> debounce_inv st4 \<and> debounce_inv st5
   \<and> debounce_inv (set_sensitivity st5 1)"
proof -
  have d0: "debounce_inv demo_init" and d4: "debounce_inv st4"
    using debounce_invariant [of 4000 2 "1 / 2" demo_init demo_init demo_init quiet 1
        "[quiet, clap, clap, clap]" st4] init_demo run_to_st4
    by simp_all
  have d5: "debounce_inv st5"
    using debounce_invariant [of 4000 2 "1 / 2" demo_init st4 st5 quiet 1 "[]" demo_init]
      d4 step5
    by simp
  have d6: "debounce_inv (set_sensitivity st5 1)"
    using debounce_invariant [of 4000 2 "1 / 2" demo_init st5 st5 quiet 1 "[]" demo_init] d5
    by simp
  from d0 d4 d5 d6 init_demo run_to_st4 step5 show ?thesis by simp
qed

section \<open>The noise gate\<close>

text \<open>
  C4. For every frame whose RMS is below 1.5 times the adaptive noise floor, the
  per-frame processing returns before any transform or spectral analysis, and it resets
  the debouncer: the counter becomes 0 and the flag false, whatever the counter was. The
  resulting state differs from the old one in the noise-floor history, the counter and
  the flag only.
\<close>

theorem noise_gate_resets:
  assumes "audio_buffer s \<noteq> []" and "last (audio_buffer s) \<noteq> []"
    and "percentile (deque_append noise_floor_history_maxlen (noise_floor_history s)
                       (frame_rms (last (audio_buffer s)))) 10 = Some nf"
    and "frame_rms (last (audio_buffer s)) < nf * 1.5"
  shows "process_audio s =
           Inr (s\<lparr>noise_floor_history :=
                     deque_append noise_floor_history_maxlen (noise_floor_history s)
                       (frame_rms (last (audio_buffer s))),
                   loud_counter := 0, loud := False\<rparr>)"
  using assms by (simp add: process_audio_def observe_noise_floor_def Let_def)

theorem noise_gate_resets_witness:
  "audio_buffer (st4\<lparr>audio_buffer := [clap, clap, clap, quiet]\<rparr>) \<noteq> []
   \<and> last (audio_buffer (st4\<lparr>audio_buffer := [clap, clap, clap, quiet]\<rparr>)) \<noteq> []
   \<and> percentile (deque_append noise_floor_history_maxlen (noise_floor_history st4)
                   (frame_rms quiet)) 10 = Some (1 / 10)
   \<and> frame_rms quiet < 1 / 10 * 1.5
   \<and> process_audio (st4\<lparr>audio_buffer := [clap, clap, clap, quiet]\<rparr>) = Inr st5"
  using noise_gate_resets [of "st4\<lparr>audio_buffer := [clap, clap, clap, quiet]\<rparr>" "1 / 10"]
  by (simp add: st4_def st5_def demo_init_def quiet_def frame_rms_pair deque_append_def
      noise_floor_history_maxlen_def percentile_def Let_def)

text \<open>
  The gate does not perform the false-decision step of the debouncer. After a quiet
  frame and three loud ones the counter is 3 and the flag is set; the next quiet frame is
  gated and leaves the counter at 0 and the flag cleared, where a false-decision step
  would leave the counter at 2 and the flag set.
\<close>

theorem noise_gate_counterexample:
  "init 4000 2 (1 / 2) = Inr demo_init
   \<and> run_frames demo_init [quiet, clap, clap, clap] = Inr st4
   \<and> loud_counter st4 = 3
   \<and> percentile (deque_append noise_floor_history_maxlen (noise_floor_history st4)
                   (frame_rms quiet)) 10 = Some (1 / 10)
   \<and> frame_rms quiet < 1 / 10 * 1.5
   \<and> audio_callback st4 quiet = Inr st5
   \<and> loud_counter st5 = 0
   \<and> loud_counter st5 \<noteq> max 0 (loud_counter st4 - 1)
   \<and> \<not> is_loud st5
   \<and> is_loud (debounce st4 False)"
proof -
  have gate: "percentile (deque_append noise_floor_history_maxlen (noise_floor_history st4)
                   (frame_rms quiet)) 10 = Some (1 / 10)
              \<and> frame_rms quiet < 1 / 10 * 1.5"
    by (simp add: st4_def demo_init_def quiet_def frame_rms_pair deque_append_def
        noise_floor_history_maxlen_def percentile_def Let_def)
  have fields: "loud_counter st4 = 3 \<and> loud_counter st5 = 0
                \<and> loud_counter st5 \<noteq> max 0 (loud_counter st4 - 1)
                \<and> \<not> is_loud st5 \<and> is_loud (debounce st4 False)"
    by (simp add: st4_def st5_def demo_init_def is_loud_def debounce_def Let_def)
  from gate fields show ?thesis
    using init_demo run_to_st4 step5 by blast
qed

section \<open>The noise-floor estimator\<close>

text \<open>
  C5. Every per-frame observation appends the RMS of the frame to a first-in first-out
  history of capacity 100, dropping the oldest value when the history is full, so that
  the length never exceeds 100, and yields the 10th percentile of the new history as the
  adaptive noise floor: the linear interpolation at rank \<open>(n - 1) / 10\<close> of the sorted
  history, a value between its least and greatest entry. It never fails, and with a
  single sample it is that sample. Every returning call of the per-frame processing on
  a non-empty buffer leaves exactly this history, and the bound holds along every stream
  of frames from initialisation.
\<close>

theorem noise_floor_estimator:
  assumes "length (noise_floor_history s) \<le> 100"
  shows "\<exists>s1 nf.
           observe_noise_floor s rms = (s1, Some nf)
         \<and> noise_floor_history s1 =
             (if length (noise_floor_history s) = 100
              then tl (noise_floor_history s) @ [rms] else noise_floor_history s @ [rms])
         \<and> length (noise_floor_history s1) \<le> 100
         \<and> nf = (let srt = sort (noise_floor_history s1);
                      m = length (noise_floor_history s1) - 1
                  in srt ! (m div 10)
                     + (srt ! min (m div 10 + 1) m - srt ! (m div 10))
                       * (real (m mod 10) / 10))
         \<and> Min (set (noise_floor_history s1)) \<le> nf
         \<and> nf \<le> Max (set (noise_floor_history s1))
         \<and> (noise_floor_history s = [] \<longrightarrow> nf = rms)
         \<and> (audio_buffer s \<noteq> [] \<and> rms = frame_rms (last (audio_buffer s))
              \<and> process_audio s = Inr s'
             \<longrightarrow> noise_floor_history s' = noise_floor_history s1)
         \<and> (init sr bs sens = Inr s0 \<and> run_frames s0 fs = Inr s''
             \<longrightarrow> length (noise_floor_history s'') \<le> 100)"
proof -
  define h' where
    "h' = deque_append noise_floor_history_maxlen (noise_floor_history s) rms"
  define s1 where "s1 = s\<lparr>noise_floor_history := h'\<rparr>"
  have ne: "h' \<noteq> []"
    by (simp add: h'_def deque_append_nonempty noise_floor_history_maxlen_def)
  then obtain nf where nf: "percentile h' 10 = Some nf"
    using percentile_tenth by blast
  have obs: "observe_noise_floor s rms = (s1, Some nf)"
    by (simp add: observe_noise_floor_def Let_def s1_def h'_def [symmetric] nf)
  have fifo: "h' = (if length (noise_floor_history s) = 100
              then tl (noise_floor_history s) @ [rms] else noise_floor_history s @ [rms])"
    using assms deque_append_bounded [of 100 "noise_floor_history s" rms]
    by (simp add: h'_def noise_floor_history_maxlen_def)
  have len: "length h' \<le> 100"
    using assms by (simp add: h'_def deque_append_length noise_floor_history_maxlen_def)
  have rank: "nf = (let srt = sort h'; m = length h' - 1
                  in srt ! (m div 10)
                     + (srt ! min (m div 10 + 1) m - srt ! (m div 10))
                       * (real (m mod 10) / 10))"
    using percentile_tenth [OF ne] nf by (simp add: Let_def)
  have bounds: "Min (set h') \<le> nf \<and> nf \<le> Max (set h')"
    using percentile_tenth_bounds [OF ne nf] .
  have single: "noise_floor_history s = [] \<longrightarrow> nf = rms"
    using nf by (auto simp: h'_def deque_append_def noise_floor_history_maxlen_def
        percentile_def Let_def)
  have step: "audio_buffer s \<noteq> [] \<and> rms = frame_rms (last (audio_buffer s))
              \<and> process_audio s = Inr s' \<longrightarrow> noise_floor_history s' = h'"
    using noise_history_process_audio [of s s'] by (auto simp: h'_def)
  have runs: "init sr bs sens = Inr s0 \<and> run_frames s0 fs = Inr s''
             \<longrightarrow> length (noise_floor_history s'') \<le> 100"
    using noise_history_init [of sr bs sens s0] noise_history_len_run_frames [of s0 fs s'']
    by auto
  have h1: "noise_floor_history s1 = h'" by (simp add: s1_def)
  show ?thesis
    using obs fifo len rank bounds single step runs unfolding h1 [symmetric] by blast
qed

theorem noise_floor_estimator_witness:
  "length (noise_floor_history demo_init) \<le> 100
   \<and> (\<exists>s1. observe_noise_floor demo_init (1 / 10) = (s1, Some (1 / 10))
            \<and> noise_floor_history s1 = [1 / 10])
   \<and> length (noise_floor_history (demo_init\<lparr>noise_floor_history := replicate 100 1\<rparr>))
       \<le> 100
   \<and> (\<exists>s1 nf. observe_noise_floor (demo_init\<lparr>noise_floor_history := replicate 100 1\<rparr>) 5
                 = (s1, Some nf)
               \<and> noise_floor_history s1 = tl (replicate 100 1) @ [5]
               \<and> length (noise_floor_history s1) \<le> 100)
   \<and> init 4000 2 (1 / 2) = Inr demo_init
   \<and> run_frames demo_init [quiet, clap, clap, clap, quiet] = Inr st5
   \<and> length (noise_floor_history st5) \<le> 100"
proof -
  have a: "\<exists>s1. observe_noise_floor demo_init (1 / 10) = (s1, Some (1 / 10))
            \<and> noise_floor_history s1 = [1 / 10]"
    using noise_floor_estimator [of demo_init "1 / 10" demo_init 4000 2 "1 / 2" demo_init
        "[]" demo_init]
    by (auto simp: demo_init_def)
  have b: "\<exists>s1 nf. observe_noise_floor (demo_init\<lparr>noise_floor_history := replicate 100 1\<rparr>) 5
                 = (s1, Some nf)
               \<and> noise_floor_history s1 = tl (replicate 100 1) @ [5]
               \<and> length (noise_floor_history s1) \<le> 100"
    using noise_floor_estimator [of "demo_init\<lparr>noise_floor_history := replicate 100 1\<rparr>" 5
        demo_init 4000 2 "1 / 2" demo_init "[]" demo_init]
    by (auto simp: demo_init_def)
  have c: "length (noise_floor_history st5) \<le> 100"
    using noise_floor_estimator [of demo_init "1 / 10" demo_init 4000 2 "1 / 2" demo_init
        "[quiet, clap, clap, clap, quiet]" st5] init_demo run_to_st5
    by (auto simp: demo_init_def)
  from a b c init_demo run_to_st5 show ?thesis
    by (simp add: demo_init_def)
qed

section \<open>The onset detector\<close>

text \<open>
  C6. For every frame that has an immediately preceding frame whose computed energy is
  not zero (a computed energy is never negative), the onset ratio is the floating-point value of the energy of the frame divided
  by the energy of the preceding frame plus \<open>1 / 10 ^ 10\<close>. Two consecutive frames of the
  same energy \<open>E > 0\<close> give a ratio within \<open>1 / 10 ^ 6 + (2 / 10 ^ 10) / E\<close> of 1, and a
  frame of triple the preceding energy gives a ratio within
  \<open>1 / 10 ^ 6 + 3 * (2 / 10 ^ 10) / E\<close> of 3. When there is no preceding frame, or the
  computed energy of the preceding frame is zero, the detector returns 0.
\<close>

theorem onset_strength_spec:
  fixes s :: processor and frame :: "real list" and energy :: "real list \<Rightarrow> real"
  defines "prev_energy \<equiv> energy (audio_buffer s ! (length (audio_buffer s) - 2))"
    and "r \<equiv> calculate_onset_strength_fp b64 energy s frame"
  shows "(length (audio_buffer s) < 2 \<longrightarrow> r = 0)
       \<and> (2 \<le> length (audio_buffer s) \<and> prev_energy = 0 \<longrightarrow> r = 0)
       \<and> (2 \<le> length (audio_buffer s) \<and> 0 < prev_energy
            \<longrightarrow> r = b64 (energy frame / b64 (prev_energy + b64 (1 / 10 ^ 10))))
       \<and> (2 \<le> length (audio_buffer s) \<and> 0 < prev_energy \<and> energy frame = prev_energy
            \<longrightarrow> \<bar>r - 1\<bar> \<le> (2 / 10 ^ 10) / prev_energy + 1 / 10 ^ 6)
       \<and> (2 \<le> length (audio_buffer s) \<and> 0 < prev_energy
              \<and> energy frame = 3 * prev_energy
            \<longrightarrow> \<bar>r - 3\<bar> \<le> 3 * (2 / 10 ^ 10) / prev_energy + 1 / 10 ^ 6)"
proof -
  have none: "length (audio_buffer s) < 2 \<longrightarrow> r = 0"
    by (simp add: r_def calculate_onset_strength_fp_def)
  have zero: "2 \<le> length (audio_buffer s) \<and> prev_energy = 0 \<longrightarrow> r = 0"
    by (simp add: r_def calculate_onset_strength_fp_def Let_def prev_energy_def)
  have formula: "r = b64 (energy frame / b64 (prev_energy + b64 (1 / 10 ^ 10)))"
    if "2 \<le> length (audio_buffer s)" and "0 < prev_energy"
    using that by (simp add: r_def calculate_onset_strength_fp_def Let_def prev_energy_def)
  have same: "\<bar>r - 1\<bar> \<le> (2 / 10 ^ 10) / prev_energy + 1 / 10 ^ 6"
    if "2 \<le> length (audio_buffer s)" and "0 < prev_energy"
      and "energy frame = prev_energy"
  proof -
    have "r = b64 (1 * prev_energy / b64 (prev_energy + b64 (1 / 10 ^ 10)))"
      using formula [OF that(1,2)] that(3) by simp
    with onset_ratio_bound [of prev_energy 1] that(2) show ?thesis by simp
  qed
  have triple: "\<bar>r - 3\<bar> \<le> 3 * (2 / 10 ^ 10) / prev_energy + 1 / 10 ^ 6"
    if "2 \<le> length (audio_buffer s)" and "0 < prev_energy"
      and "energy frame = 3 * prev_energy"
  proof -
    have "r = b64 (3 * prev_energy / b64 (prev_energy + b64 (1 / 10 ^ 10)))"
      using formula [OF that(1,2)] that(3) by simp
    with onset_ratio_bound [of prev_energy 3] that(2) show ?thesis by simp
  qed
  show ?thesis
    using none zero formula same triple by blast
qed

theorem onset_strength_spec_witness:
  "calculate_onset_strength_fp b64 sum_squares (demo_init\<lparr>audio_buffer := [clap]\<rparr>) clap = 0
   \<and> calculate_onset_strength_fp b64 sum_squares
         (demo_init\<lparr>audio_buffer := [silent, clap]\<rparr>) clap = 0
   \<and> calculate_onset_strength_fp b64 sum_squares
         (demo_init\<lparr>audio_buffer := [quiet, clap]\<rparr>) clap
       = b64 (2 / b64 (1 / 50 + b64 (1 / 10 ^ 10)))
   \<and> \<bar>calculate_onset_strength_fp b64 sum_squares
         (demo_init\<lparr>audio_buffer := [clap, clap]\<rparr>) clap - 1\<bar>
       \<le> (2 / 10 ^ 10) / 2 + 1 / 10 ^ 6
   \<and> \<bar>calculate_onset_strength_fp b64 sum_squares
         (demo_init\<lparr>audio_buffer := [[1, 0, 0, 0], [1, 1, 1, 0]]\<rparr>) [1, 1, 1, 0] - 3\<bar>
       \<le> 3 * (2 / 10 ^ 10) / 1 + 1 / 10 ^ 6"
proof -
  have e: "sum_squares clap = 2" "sum_squares quiet = 1 / 50" "sum_squares silent = 0"
    "sum_squares [1, 0, 0, 0] = 1" "sum_squares [1, 1, 1, 0] = 3"
    by (simp_all add: sum_squares_def clap_def quiet_def silent_def power_divide)
  have a: "calculate_onset_strength_fp b64 sum_squares
             (demo_init\<lparr>audio_buffer := [clap]\<rparr>) clap = 0"
    using onset_strength_spec [of "demo_init\<lparr>audio_buffer := [clap]\<rparr>" sum_squares clap]
    by simp
  have b: "calculate_onset_strength_fp b64 sum_squares
             (demo_init\<lparr>audio_buffer := [silent, clap]\<rparr>) clap = 0"
    using onset_strength_spec [of "demo_init\<lparr>audio_buffer := [silent, clap]\<rparr>"
        sum_squares clap] e
    by simp
  have c: "calculate_onset_strength_fp b64 sum_squares
             (demo_init\<lparr>audio_buffer := [quiet, clap]\<rparr>) clap
           = b64 (2 / b64 (1 / 50 + b64 (1 / 10 ^ 10)))"
    using onset_strength_spec [of "demo_init\<lparr>audio_buffer := [quiet, clap]\<rparr>"
        sum_squares clap] e
    by simp
  have d: "\<bar>calculate_onset_strength_fp b64 sum_squares
             (demo_init\<lparr>audio_buffer := [clap, clap]\<rparr>) clap - 1\<bar>
           \<le> (2 / 10 ^ 10) / 2 + 1 / 10 ^ 6"
    using onset_strength_spec [of "demo_init\<lparr>audio_buffer := [clap, clap]\<rparr>"
        sum_squares clap] e
    by auto
  have f: "\<bar>calculate_onset_strength_fp b64 sum_squares
         (demo_init\<lparr>audio_buffer := [[1, 0, 0, 0], [1, 1, 1, 0]]\<rparr>) [1, 1, 1, 0] - 3\<bar>
       \<le> 3 * (2 / 10 ^ 10) / 1 + 1 / 10 ^ 6"
    using onset_strength_spec [of
        "demo_init\<lparr>audio_buffer := [[1, 0, 0, 0], [1, 1, 1, 0]]\<rparr>" sum_squares
        "[1, 1, 1, 0]"] e
    by auto
  from a b c d f show ?thesis by blast
qed

text \<open>
  The formula does not hold after a frame of energy zero: for a loud frame that follows
  digital silence the detector returns 0, where the formula gives at least \<open>10 ^ 10\<close>, and two
  consecutive silent frames, which have the same energy, give 0 and not 1. The first
  situation arises from the constructor by two callbacks. Nor is the ratio of two frames
  of the same energy near 1 whatever the energy: at energy \<open>1 / 10 ^ 10\<close> it is at most
  \<open>3 / 4\<close>.
\<close>

theorem onset_strength_counterexample:
  "run_frames demo_init [silent, clap] = Inr st_silent_clap
   \<and> audio_buffer st_silent_clap = [silent, clap]
   \<and> onset_history st_silent_clap = [0]
   \<and> calculate_onset_strength st_silent_clap clap = 0
   \<and> calculate_onset_strength_fp b64 sum_squares st_silent_clap clap = 0
   \<and> sum_squares clap = 2 \<and> sum_squares silent = 0
   \<and> 10 ^ 10 \<le> b64 (2 / b64 (0 + b64 (1 / 10 ^ 10)))
   \<and> calculate_onset_strength_fp b64 sum_squares
         (demo_init\<lparr>audio_buffer := [silent, silent]\<rparr>) silent = 0
   \<and> sum_squares [1 / 10 ^ 5, 0] = 1 / 10 ^ 10
   \<and> calculate_onset_strength_fp b64 sum_squares
         (demo_init\<lparr>audio_buffer := [[1 / 10 ^ 5, 0], [1 / 10 ^ 5, 0]]\<rparr>) [1 / 10 ^ 5, 0]
       \<le> 3 / 4"
proof -
  have run: "run_frames demo_init [silent, clap] = Inr st_silent_clap"
    by (simp add: step_silent step_silent_clap)
  have rest: "audio_buffer st_silent_clap = [silent, clap]
   \<and> onset_history st_silent_clap = [0]
   \<and> calculate_onset_strength st_silent_clap clap = 0
   \<and> calculate_onset_strength_fp b64 sum_squares st_silent_clap clap = 0
   \<and> sum_squares clap = 2 \<and> sum_squares silent = 0
   \<and> calculate_onset_strength_fp b64 sum_squares
         (demo_init\<lparr>audio_buffer := [silent, silent]\<rparr>) silent = 0"
    by (simp add: st_silent_clap_def demo_init_def calculate_onset_strength_def
        calculate_onset_strength_fp_def sum_squares_def silent_def clap_def Let_def)
  have en: "sum_squares [1 / 10 ^ 5, 0] = 1 / 10 ^ 10"
    by (simp add: sum_squares_def power_divide)
  have "calculate_onset_strength_fp b64 sum_squares
         (demo_init\<lparr>audio_buffer := [[1 / 10 ^ 5, 0], [1 / 10 ^ 5, 0]]\<rparr>) [1 / 10 ^ 5, 0]
        = b64 ((1 / 10 ^ 10) / b64 (1 / 10 ^ 10 + b64 (1 / 10 ^ 10)))"
    by (simp add: calculate_onset_strength_fp_def Let_def sum_squares_def power_divide)
  with small_energy_ratio have small: "calculate_onset_strength_fp b64 sum_squares
         (demo_init\<lparr>audio_buffer := [[1 / 10 ^ 5, 0], [1 / 10 ^ 5, 0]]\<rparr>) [1 / 10 ^ 5, 0]
       \<le> 3 / 4"
    by (simp only:)
  from run rest en small formula_after_silence show ?thesis by blast
qed

section \<open>Degenerate frames\<close>

text \<open>
  C7. For every frame whose total spectral energy is zero, in a state whose band indices
  address bins of the frame's spectrum, the per-frame processing raises no error and
  divides by nothing: it returns before a band-energy ratio or a centroid is computed, so
  the centroid and onset histories stay as they were, and it resets the counter to 0 and
  the flag to false at once. In particular this holds for the all-zero frame of
  \<^verbatim>\<open>blocksize\<close> samples in every state reached from the constructor, whose spectrum is zero
  in every bin. The centroid helper returns 0 on a spectrum whose magnitudes sum to zero.
\<close>

theorem zero_energy_frame:
  "(audio_buffer s \<noteq> [] \<and> rfft (last (audio_buffer s)) = Inr fft
      \<and> sum_squares (map cmod fft) = 0 \<and> in_range (length fft) (freq_band_indices s)
    \<longrightarrow> process_audio s =
          Inr (s\<lparr>noise_floor_history :=
                    deque_append noise_floor_history_maxlen (noise_floor_history s)
                      (frame_rms (last (audio_buffer s))),
                  loud_counter := 0, loud := False\<rparr>))
   \<and> (init sr bs sens = Inr s0 \<and> run_frames s0 fs = Inr s1
      \<longrightarrow> (\<exists>s2. audio_callback s1 (replicate bs 0) = Inr s2
                 \<and> loud_counter s2 = 0 \<and> \<not> is_loud s2
                 \<and> centroid_history s2 = centroid_history s1
                 \<and> onset_history s2 = onset_history s1))
   \<and> (0 < n \<longrightarrow> rfft (replicate n 0) = Inr (replicate (n div 2 + 1) 0)
               \<and> sum_squares (map cmod (replicate (n div 2 + 1) (0::complex))) = 0)
   \<and> (freq_axis (blocksize s) (samplerate s) = Inr freqs \<and> sum_list magnitude = 0
      \<longrightarrow> calculate_spectral_centroid s magnitude = Inr 0)"
proof -
  have reach: "\<exists>s2. audio_callback s1 (replicate bs 0) = Inr s2
                 \<and> loud_counter s2 = 0 \<and> \<not> is_loud s2
                 \<and> centroid_history s2 = centroid_history s1
                 \<and> onset_history s2 = onset_history s1"
    if "init sr bs sens = Inr s0" and "run_frames s0 fs = Inr s1"
  proof -
    from bands_in_range_init [OF that(1)] bands_in_range_run_frames [OF that(2)]
    have "bands_in_range s1" and "blocksize s1 = bs"
      by (auto simp: bands_in_range_def)
    with silent_frame_callback [of s1] show ?thesis
      by (simp add: is_loud_def)
  qed
  have zero: "sum_squares (map cmod (replicate (n div 2 + 1) (0::complex))) = 0"
    by (simp add: sum_squares_def sum_list_replicate del: replicate_Suc)
  show ?thesis
    using zero_energy_process_audio [of s fft] reach rfft_replicate_zero [of n] zero
      centroid_zero [of s freqs magnitude]
    by blast
qed


theorem zero_energy_frame_witness:
  "audio_buffer (st_silent_clap\<lparr>audio_buffer := [silent, clap, silent]\<rparr>) \<noteq> []
   \<and> rfft (last (audio_buffer (st_silent_clap\<lparr>audio_buffer := [silent, clap, silent]\<rparr>)))
       = Inr [0, 0]
   \<and> sum_squares (map cmod [0, 0]) = 0
   \<and> in_range (length [0 :: complex, 0])
        (freq_band_indices (st_silent_clap\<lparr>audio_buffer := [silent, clap, silent]\<rparr>))
   \<and> process_audio (st_silent_clap\<lparr>audio_buffer := [silent, clap, silent]\<rparr>) = Inr st_scs
   \<and> init 4000 2 (1 / 2) = Inr demo_init
   \<and> run_frames demo_init [silent, clap] = Inr st_silent_clap
   \<and> (\<exists>s2. audio_callback st_silent_clap (replicate 2 0) = Inr s2
            \<and> loud_counter s2 = 0 \<and> \<not> is_loud s2 \<and> centroid_history s2 = [2000])
   \<and> rfft (replicate 2 0) = Inr [0, 0]
   \<and> freq_axis (blocksize demo_init) (samplerate demo_init) = Inr [0, 2000]
   \<and> calculate_spectral_centroid demo_init [0, 0] = Inr 0"
proof -
  let ?s = "st_silent_clap\<lparr>audio_buffer := [silent, clap, silent]\<rparr>"
  have hyp: "audio_buffer ?s \<noteq> [] \<and> rfft (last (audio_buffer ?s)) = Inr [0, 0]
             \<and> sum_squares (map cmod [0, 0]) = 0
             \<and> in_range (length [0 :: complex, 0]) (freq_band_indices ?s)"
    by (simp add: st_silent_clap_def demo_init_def silent_def rfft_pair sum_squares_def)
  have rms: "frame_rms silent = 0"
    using frame_rms_pair [of 0] by (simp add: silent_def)
  have a: "process_audio ?s = Inr st_scs"
    using zero_energy_frame [of ?s "[0, 0]" 4000 2 "1 / 2" demo_init "[]" demo_init 2
        "[0, 2000]" "[0, 0]"] hyp
    by (simp add: st_silent_clap_def st_scs_def demo_init_def deque_append_def
        noise_floor_history_maxlen_def rms)
  have run: "run_frames demo_init [silent, clap] = Inr st_silent_clap"
    by (simp add: step_silent step_silent_clap)
  have b: "\<exists>s2. audio_callback st_silent_clap (replicate 2 0) = Inr s2
            \<and> loud_counter s2 = 0 \<and> \<not> is_loud s2 \<and> centroid_history s2 = [2000]"
    using zero_energy_frame [of demo_init "[0, 0]" 4000 2 "1 / 2" demo_init
        "[silent, clap]" st_silent_clap 2 "[0, 2000]" "[0, 0]"] init_demo run
    by (auto simp: st_silent_clap_def demo_init_def)
  have ax: "freq_axis (blocksize demo_init) (samplerate demo_init) = Inr [0, 2000]"
    by (simp add: freq_axis_def rfftfreq_def demo_init_def
        upt_rec [of 0] upt_rec [of 1] upt_rec [of 2])
  have c: "rfft (replicate 2 0) = Inr [0, 0]
           \<and> calculate_spectral_centroid demo_init [0, 0] = Inr 0"
    using zero_energy_frame [of demo_init "[0, 0]" 4000 2 "1 / 2" demo_init "[]" demo_init 2
        "[0, 2000]" "[0, 0]"] ax
    by simp
  from hyp a b c ax init_demo run show ?thesis by blast
qed

text \<open>
  No spectral feature is reported for a frame of zero energy: after silence, a loud frame
  and silence again, the last recorded centroid is still the 2000 Hz of the loud frame,
  not 0.
\<close>

theorem zero_energy_counterexample:
  "run_frames demo_init [silent, clap] = Inr st_silent_clap
   \<and> rfft silent = Inr [0, 0]
   \<and> sum_squares (map cmod [0, 0]) = 0
   \<and> audio_callback st_silent_clap silent = Inr st_scs
   \<and> centroid_history st_scs = centroid_history st_silent_clap
   \<and> onset_history st_scs = onset_history st_silent_clap
   \<and> last (centroid_history st_scs) = 2000
   \<and> last (centroid_history st_scs) \<noteq> 0"
proof -
  have run: "run_frames demo_init [silent, clap] = Inr st_silent_clap"
    by (simp add: step_silent step_silent_clap)
  have rest: "rfft silent = Inr [0, 0]
   \<and> sum_squares (map cmod [0, 0]) = 0
   \<and> centroid_history st_scs = centroid_history st_silent_clap
   \<and> onset_history st_scs = onset_history st_silent_clap
   \<and> last (centroid_history st_scs) = 2000
   \<and> last (centroid_history st_scs) \<noteq> 0"
    by (simp add: silent_def rfft_pair sum_squares_def st_scs_def st_silent_clap_def
        demo_init_def)
  from run rest step_scs show ?thesis by blast
qed


section \<open>Independence of the frequency threshold\<close>

text \<open>
  C10. The classification does not depend on the field \<^verbatim>\<open>freq_threshold\<close>: for two states
  that differ in that field only, the raw decision, an exception if any, and the state
  after processing (so the counter and the loud flag) agree on every frame and every
  stream of frames, up to that field. \<^verbatim>\<open>set_sensitivity\<close> therefore acts on the
  classification through \<^verbatim>\<open>onset_threshold\<close> alone.
\<close>

theorem freq_threshold_irrelevant:
  "make_decision (s\<lparr>freq_threshold := v\<rparr>) rms nf band_ratio centroid onset_strength
     = make_decision s rms nf band_ratio centroid onset_strength
   \<and> process_audio (s\<lparr>freq_threshold := v\<rparr>)
       = map_sum id (\<lambda>s'. s'\<lparr>freq_threshold := v\<rparr>) (process_audio s)
   \<and> audio_callback (s\<lparr>freq_threshold := v\<rparr>) f
       = map_sum id (\<lambda>s'. s'\<lparr>freq_threshold := v\<rparr>) (audio_callback s f)
   \<and> run_frames (s\<lparr>freq_threshold := v\<rparr>) fs
       = map_sum id (\<lambda>s'. s'\<lparr>freq_threshold := v\<rparr>) (run_frames s fs)
   \<and> run_frames (set_sensitivity s x) fs
       = map_sum id (\<lambda>s'. s'\<lparr>sensitivity := max 0 (min 1 x),
                                freq_threshold := 0.020 - max 0 (min 1 x) * 0.008\<rparr>)
           (run_frames (s\<lparr>onset_threshold := 2.0 - max 0 (min 1 x) * 0.5\<rparr>) fs)"
proof -
  have "set_sensitivity s x =
          s\<lparr>onset_threshold := 2.0 - max 0 (min 1 x) * 0.5\<rparr>
           \<lparr>sensitivity := max 0 (min 1 x)\<rparr>
           \<lparr>freq_threshold := 0.020 - max 0 (min 1 x) * 0.008\<rparr>"
    by (simp add: set_sensitivity_def Let_def)
  then have "run_frames (set_sensitivity s x) fs
       = map_sum id (\<lambda>s'. s'\<lparr>sensitivity := max 0 (min 1 x),
                                freq_threshold := 0.020 - max 0 (min 1 x) * 0.008\<rparr>)
           (run_frames (s\<lparr>onset_threshold := 2.0 - max 0 (min 1 x) * 0.5\<rparr>) fs)"
    by (simp only: run_frames_freq_threshold run_frames_sensitivity sum.map_comp o_def id_def)
  moreover have "make_decision (s\<lparr>freq_threshold := v\<rparr>) rms nf band_ratio centroid
      onset_strength = make_decision s rms nf band_ratio centroid onset_strength"
    by (simp add: make_decision_def)
  ultimately show ?thesis
    using process_audio_freq_threshold audio_callback_freq_threshold
      run_frames_freq_threshold by simp
qed

theorem freq_threshold_irrelevant_witness:
  "run_frames (demo_init\<lparr>freq_threshold := 9 / 10\<rparr>) [quiet, clap, clap, clap]
     = Inr (st4\<lparr>freq_threshold := 9 / 10\<rparr>)
   \<and> loud (st4\<lparr>freq_threshold := 9 / 10\<rparr>) = loud st4
   \<and> loud_counter (st4\<lparr>freq_threshold := 9 / 10\<rparr>) = loud_counter st4"
  using freq_threshold_irrelevant [where s = demo_init and v = "9 / 10"
      and fs = "[quiet, clap, clap, clap]"] run_to_st4
  by (simp del: run_frames.simps)

section \<open>Sensitivity\<close>




end
